theory Spec2Isabelle
  imports Complex_Main "HOL-Library.Word" "HOL-Library.Monad_Syntax"
begin

section \<open>Data model (SceneManager.h)\<close>

text \<open>
  The scene manager is glue between four collaborators whose code is not part of the
  repository: the image loader (stb\_image), the OpenGL driver, the shader manager and
  the mesh library, plus glm's float and matrix arithmetic.  Every call into one of them
  is recorded, in program order, in a trace; what a collaborator hands back (an image, a
  texture name, a float, a matrix) is a parameter of the model, collected in the record
  \<open>world\<close>.  Floats are a type parameter \<open>'f\<close> and 4x4 matrices a type parameter \<open>'m\<close>:
  the program never branches on either.
\<close>

type_synonym 'f vec2 = "'f \<times> 'f"
type_synonym 'f vec3 = "'f \<times> 'f \<times> 'f"
type_synonym 'f vec4 = "'f \<times> 'f \<times> 'f \<times> 'f"

text \<open>struct TEXTURE\_INFO: \<open>std::string tag; uint32_t ID;\<close>\<close>

record TEXTURE_INFO =
  tag :: string
  ID :: "32 word"

text \<open>struct OBJECT\_MATERIAL (its \<open>tag\<close> field is called \<open>mtag\<close> here).\<close>

record 'f OBJECT_MATERIAL =
  mtag :: string
  ambientColor :: "'f vec3"
  ambientStrength :: 'f
  diffuseColor :: "'f vec3"
  specularColor :: "'f vec3"
  shininess :: 'f

text \<open>The nine primitive kinds of ShapeMeshes.\<close>

datatype mesh = Plane | Box | Cone | Prism | Pyramid3 | Sphere | Torus | TaperedCylinder | Cylinder

datatype gl_pname = GL_TEXTURE_WRAP_S | GL_TEXTURE_WRAP_T | GL_TEXTURE_MIN_FILTER | GL_TEXTURE_MAG_FILTER
datatype gl_pvalue = GL_REPEAT | GL_LINEAR
datatype gl_format = GL_RGB8 | GL_RGBA8

text \<open>
  One constructor per external call the source makes.  The three \<open>cout_\<close> events are
  the three messages CreateGLTexture prints.
\<close>

datatype ('f, 'm) call =
    stbi_set_flip_vertically_on_load bool
  | stbi_load_file string
  | stbi_image_free
  | cout_loaded string int int int
  | cout_channels int
  | cout_failed string
  | glGenTextures "32 word"
  | glBindTexture "32 word"
  | glTexParameteri gl_pname gl_pvalue
  | glTexImage2D gl_format int int
  | glGenerateMipmap
  | glActiveTexture int
  | setMat4Value string 'm
  | setVec4Value string "'f vec4"
  | setVec3Value string "'f vec3"
  | setVec2Value string "'f vec2"
  | setFloatValue string 'f
  | setIntValue string int
  | setSampler2DValue string int
  | LoadMesh mesh
  | DrawMesh mesh

text \<open>
  What the collaborators return.  \<open>stbi_load w f\<close> is \<open>None\<close> when the file does not
  load and \<open>Some (width, height, channels)\<close> when it does; \<open>gen_name w n\<close> is the texture
  name the driver writes on its \<open>n\<close>-th glGenTextures call; \<open>flit w r\<close> is the float
  denoted by the literal \<open>r\<close>, \<open>fint\<close> the conversion from int, \<open>fadd\<close>, \<open>fmul\<close>, \<open>fdiv\<close>
  float arithmetic; the \<open>glm_\<close> fields are the glm functions of the same name, and
  \<open>mat_mul\<close> is glm's \<open>mat4 * mat4\<close>.  \<open>uninit w\<close> is the content of an uninitialised
  local OBJECT\_MATERIAL.
\<close>

record ('f, 'm) world =
  stbi_load :: "string \<Rightarrow> (int \<times> int \<times> int) option"
  gen_name :: "nat \<Rightarrow> 32 word"
  flit :: "rat \<Rightarrow> 'f"
  fint :: "int \<Rightarrow> 'f"
  fadd :: "'f \<Rightarrow> 'f \<Rightarrow> 'f"
  fmul :: "'f \<Rightarrow> 'f \<Rightarrow> 'f"
  fdiv :: "'f \<Rightarrow> 'f \<Rightarrow> 'f"
  glm_cos :: "'f \<Rightarrow> 'f"
  glm_radians :: "'f \<Rightarrow> 'f"
  glm_scale :: "'f vec3 \<Rightarrow> 'm"
  glm_rotate :: "'f \<Rightarrow> 'f vec3 \<Rightarrow> 'm"
  glm_translate :: "'f vec3 \<Rightarrow> 'm"
  mat_mul :: "'m \<Rightarrow> 'm \<Rightarrow> 'm"
  uninit :: "'f OBJECT_MATERIAL"

text \<open>
  class SceneManager.  \<open>m_pShaderManager\<close> is \<open>True\<close> iff the pointer is not NULL;
  \<open>m_textureIDs\<close> is the array \<open>TEXTURE_INFO m_textureIDs[16]\<close>, indexed from 0, and
  every access checks the index against \<open>capacity\<close>; \<open>gl_generated\<close> counts the
  glGenTextures calls made so far; \<open>trace\<close> is the list of external calls, oldest first.
  \<open>m_basicMeshes\<close> is allocated by the constructor and never NULL.
\<close>

record ('f, 'm) SceneManager =
  m_pShaderManager :: bool
  m_loadedTextures :: int
  m_textureIDs :: "nat \<Rightarrow> TEXTURE_INFO"
  m_objectMaterials :: "'f OBJECT_MATERIAL list"
  gl_generated :: nat
  trace :: "('f, 'm) call list"

definition capacity :: int where
  "capacity = 16"

definition in_bounds :: "int \<Rightarrow> bool" where
  "in_bounds i \<longleftrightarrow> 0 \<le> i \<and> i < capacity"

text \<open>
  The constructor: \<open>m_loadedTextures = 0\<close>, an empty material vector, sixteen entries
  with empty tags and indeterminate IDs (\<open>junk\<close>).
\<close>

definition SceneManager_new :: "bool \<Rightarrow> (nat \<Rightarrow> 32 word) \<Rightarrow> ('f, 'm) SceneManager" where
  "SceneManager_new pShaderManager junk =
     \<lparr> m_pShaderManager = pShaderManager,
       m_loadedTextures = 0,
       m_textureIDs = (\<lambda>i. \<lparr> tag = [], ID = junk i \<rparr>),
       m_objectMaterials = [],
       gl_generated = 0,
       trace = [] \<rparr>"

definition emit :: "('f, 'm) call \<Rightarrow> ('f, 'm) SceneManager \<Rightarrow> ('f, 'm) SceneManager" where
  "emit c s = s\<lparr> trace := trace s @ [c] \<rparr>"

definition emits :: "('f, 'm) call list \<Rightarrow> ('f, 'm) SceneManager \<Rightarrow> ('f, 'm) SceneManager" where
  "emits cs s = s\<lparr> trace := trace s @ cs \<rparr>"

text \<open>\<open>glGenTextures(1, &x)\<close>: the driver's next name, and the state after the call.\<close>

definition gen_texture ::
  "('f, 'm) world \<Rightarrow> ('f, 'm) SceneManager \<Rightarrow> 32 word \<times> ('f, 'm) SceneManager" where
  "gen_texture w s =
     (let name = gen_name w (gl_generated s)
      in (name, emit (glGenTextures name) (s\<lparr> gl_generated := gl_generated s + 1 \<rparr>)))"

section \<open>Texture registry\<close>

text \<open>
  The tail of CreateGLTexture's success path (lines 107-119): mipmaps, free the image,
  unbind, then the two writes to \<open>m_textureIDs[m_loadedTextures]\<close> and the increment.
  A write outside the array is undefined behaviour: \<open>None\<close>.
\<close>

definition register_texture ::
  "32 word \<Rightarrow> string \<Rightarrow> ('f, 'm) SceneManager \<Rightarrow> (bool \<times> ('f, 'm) SceneManager) option" where
  "register_texture textureID tg s0 =
     (let s = emits [glGenerateMipmap, stbi_image_free, glBindTexture 0] s0;
          n = m_loadedTextures s
      in if in_bounds n then
           (let s = s\<lparr> m_textureIDs := (m_textureIDs s)(nat n := (m_textureIDs s (nat n))\<lparr> ID := textureID \<rparr>) \<rparr>;
                s = s\<lparr> m_textureIDs := (m_textureIDs s)(nat n := (m_textureIDs s (nat n))\<lparr> tag := tg \<rparr>) \<rparr>;
                s = s\<lparr> m_loadedTextures := m_loadedTextures s + 1 \<rparr>
            in Some (True, s))
         else None)"

definition CreateGLTexture ::
  "('f, 'm) world \<Rightarrow> string \<Rightarrow> string \<Rightarrow> ('f, 'm) SceneManager \<Rightarrow> (bool \<times> ('f, 'm) SceneManager) option" where
  "CreateGLTexture w filename tg s0 =
     (let s = emits [stbi_set_flip_vertically_on_load True, stbi_load_file filename] s0
      in case stbi_load w filename of
           Some (width, height, colorChannels) \<Rightarrow>
             (let s = emit (cout_loaded filename width height colorChannels) s;
                  (textureID, s) = gen_texture w s;
                  s = emits [glBindTexture textureID,
                             glTexParameteri GL_TEXTURE_WRAP_S GL_REPEAT,
                             glTexParameteri GL_TEXTURE_WRAP_T GL_REPEAT,
                             glTexParameteri GL_TEXTURE_MIN_FILTER GL_LINEAR,
                             glTexParameteri GL_TEXTURE_MAG_FILTER GL_LINEAR] s
              in if colorChannels = 3 then
                   register_texture textureID tg (emit (glTexImage2D GL_RGB8 width height) s)
                 else if colorChannels = 4 then
                   register_texture textureID tg (emit (glTexImage2D GL_RGBA8 width height) s)
                 else Some (False, emit (cout_channels colorChannels) s))
         | None \<Rightarrow> Some (False, emit (cout_failed filename) s))"

text \<open>BindGLTextures: \<open>for (int i = 0; i < m_loadedTextures; i++)\<close>.\<close>

function BindGLTextures_loop ::
  "int \<Rightarrow> ('f, 'm) SceneManager \<Rightarrow> ('f, 'm) SceneManager option" where
  "BindGLTextures_loop i s =
     (if i < m_loadedTextures s then
        (if in_bounds i then
           BindGLTextures_loop (i + 1)
             (emits [glActiveTexture i, glBindTexture (ID (m_textureIDs s (nat i)))] s)
         else None)
      else Some s)"
  by pat_completeness auto
termination
  by (relation "measure (\<lambda>(i, s). nat (m_loadedTextures s - i))") (auto simp: emits_def)

definition BindGLTextures :: "('f, 'm) SceneManager \<Rightarrow> ('f, 'm) SceneManager option" where
  "BindGLTextures s = BindGLTextures_loop 0 s"

text \<open>DestroyGLTextures: \<open>glGenTextures(1, &m_textureIDs[i].ID)\<close> for each loaded slot.\<close>

function DestroyGLTextures_loop ::
  "('f, 'm) world \<Rightarrow> int \<Rightarrow> ('f, 'm) SceneManager \<Rightarrow> ('f, 'm) SceneManager option" where
  "DestroyGLTextures_loop w i s =
     (if i < m_loadedTextures s then
        (if in_bounds i then
           (let (name, s) = gen_texture w s
            in DestroyGLTextures_loop w (i + 1)
                 (s\<lparr> m_textureIDs := (m_textureIDs s)(nat i := (m_textureIDs s (nat i))\<lparr> ID := name \<rparr>) \<rparr>))
         else None)
      else Some s)"
  by pat_completeness auto
termination
  by (relation "measure (\<lambda>(w, i, s). nat (m_loadedTextures s - i))")
     (auto simp: gen_texture_def emit_def Let_def)

definition DestroyGLTextures ::
  "('f, 'm) world \<Rightarrow> ('f, 'm) SceneManager \<Rightarrow> ('f, 'm) SceneManager option" where
  "DestroyGLTextures w s = DestroyGLTextures_loop w 0 s"

text \<open>
  FindTextureID and FindTextureSlot: the loop state is the triple of locals
  \<open>(textureID, index, bFound)\<close>; the result is the returned \<open>int\<close>.  The \<open>uint32_t\<close> ID is
  converted to \<open>int\<close> on assignment (\<open>sint\<close>).
\<close>

function FindTextureID_loop ::
  "('f, 'm) SceneManager \<Rightarrow> string \<Rightarrow> int \<Rightarrow> int \<Rightarrow> bool \<Rightarrow> int option" where
  "FindTextureID_loop s tg textureID index bFound =
     (if index < m_loadedTextures s \<and> bFound = False then
        (if in_bounds index then
           (if tag (m_textureIDs s (nat index)) = tg
            then FindTextureID_loop s tg (sint (ID (m_textureIDs s (nat index)))) index True
            else FindTextureID_loop s tg textureID (index + 1) bFound)
         else None)
      else Some textureID)"
  by pat_completeness auto
termination
  by (relation "measure (\<lambda>(s, tg, textureID, index, bFound).
        2 * nat (m_loadedTextures s - index) + (if bFound then 0 else 1))") auto

definition FindTextureID :: "('f, 'm) SceneManager \<Rightarrow> string \<Rightarrow> int option" where
  "FindTextureID s tg = FindTextureID_loop s tg (-1) 0 False"

function FindTextureSlot_loop ::
  "('f, 'm) SceneManager \<Rightarrow> string \<Rightarrow> int \<Rightarrow> int \<Rightarrow> bool \<Rightarrow> int option" where
  "FindTextureSlot_loop s tg textureSlot index bFound =
     (if index < m_loadedTextures s \<and> bFound = False then
        (if in_bounds index then
           (if tag (m_textureIDs s (nat index)) = tg
            then FindTextureSlot_loop s tg index index True
            else FindTextureSlot_loop s tg textureSlot (index + 1) bFound)
         else None)
      else Some textureSlot)"
  by pat_completeness auto
termination
  by (relation "measure (\<lambda>(s, tg, textureSlot, index, bFound).
        2 * nat (m_loadedTextures s - index) + (if bFound then 0 else 1))") auto

definition FindTextureSlot :: "('f, 'm) SceneManager \<Rightarrow> string \<Rightarrow> int option" where
  "FindTextureSlot s tg = FindTextureSlot_loop s tg (-1) 0 False"

section \<open>Material table\<close>

text \<open>
  FindMaterial's loop; the locals are \<open>index\<close> (an \<open>int\<close> that starts at 0 and is only
  incremented, compared with the vector's unsigned size) and \<open>bFound\<close>; \<open>material\<close> is
  the caller's object, passed by reference.  Five fields are copied, the tag is not.
\<close>

function FindMaterial_loop ::
  "'f OBJECT_MATERIAL list \<Rightarrow> string \<Rightarrow> 'f OBJECT_MATERIAL \<Rightarrow> nat \<Rightarrow> bool \<Rightarrow> 'f OBJECT_MATERIAL" where
  "FindMaterial_loop mats tg material index bFound =
     (if index < length mats \<and> bFound = False then
        (if mtag (mats ! index) = tg then
           FindMaterial_loop mats tg
             (material\<lparr> ambientColor := ambientColor (mats ! index),
                        ambientStrength := ambientStrength (mats ! index),
                        diffuseColor := diffuseColor (mats ! index),
                        specularColor := specularColor (mats ! index),
                        shininess := shininess (mats ! index) \<rparr>)
             index True
         else FindMaterial_loop mats tg material (index + 1) bFound)
      else material)"
  by pat_completeness auto
termination
  by (relation "measure (\<lambda>(mats, tg, material, index, bFound).
        2 * (length mats - index) + (if bFound then 0 else 1))") auto

text \<open>The result pairs the returned \<open>bool\<close> with the final content of \<open>material\<close>.\<close>

definition FindMaterial ::
  "('f, 'm) SceneManager \<Rightarrow> string \<Rightarrow> 'f OBJECT_MATERIAL \<Rightarrow> bool \<times> 'f OBJECT_MATERIAL" where
  "FindMaterial s tg material =
     (if length (m_objectMaterials s) = 0 then (False, material)
      else (True, FindMaterial_loop (m_objectMaterials s) tg material 0 False))"

section \<open>Transform and uniform bridge\<close>

abbreviation g_ModelName :: string where "g_ModelName \<equiv> ''model''"
abbreviation g_ColorValueName :: string where "g_ColorValueName \<equiv> ''objectColor''"
abbreviation g_TextureValueName :: string where "g_TextureValueName \<equiv> ''objectTexture''"
abbreviation g_UseTextureName :: string where "g_UseTextureName \<equiv> ''bUseTexture''"

text \<open>\<open>glm::vec3(a, b, c)\<close> of three float literals.\<close>

definition vec3 :: "('f, 'm) world \<Rightarrow> rat \<Rightarrow> rat \<Rightarrow> rat \<Rightarrow> 'f vec3" where
  "vec3 w a b c = (flit w a, flit w b, flit w c)"

text \<open>
  The matrix SetTransformations builds; C++'s \<open>*\<close> associates to the left.
\<close>

definition modelView ::
  "('f, 'm) world \<Rightarrow> 'f vec3 \<Rightarrow> 'f \<Rightarrow> 'f \<Rightarrow> 'f \<Rightarrow> 'f vec3 \<Rightarrow> 'm" where
  "modelView w scaleXYZ XrotationDegrees YrotationDegrees ZrotationDegrees positionXYZ =
     (let scale = glm_scale w scaleXYZ;
          rotationX = glm_rotate w (glm_radians w XrotationDegrees) (vec3 w 1 0 0);
          rotationY = glm_rotate w (glm_radians w YrotationDegrees) (vec3 w 0 1 0);
          rotationZ = glm_rotate w (glm_radians w ZrotationDegrees) (vec3 w 0 0 1);
          translation = glm_translate w positionXYZ
      in mat_mul w (mat_mul w (mat_mul w (mat_mul w translation rotationX) rotationY) rotationZ) scale)"

definition SetTransformations ::
  "('f, 'm) world \<Rightarrow> 'f vec3 \<Rightarrow> 'f \<Rightarrow> 'f \<Rightarrow> 'f \<Rightarrow> 'f vec3 \<Rightarrow>
   ('f, 'm) SceneManager \<Rightarrow> ('f, 'm) SceneManager" where
  "SetTransformations w scaleXYZ XrotationDegrees YrotationDegrees ZrotationDegrees positionXYZ s =
     (let mv = modelView w scaleXYZ XrotationDegrees YrotationDegrees ZrotationDegrees positionXYZ
      in if m_pShaderManager s then emit (setMat4Value g_ModelName mv) s else s)"

text \<open>\<open>setIntValue(name, false)\<close> passes 0, \<open>setIntValue(name, true)\<close> passes 1.\<close>

definition SetShaderColor ::
  "'f \<Rightarrow> 'f \<Rightarrow> 'f \<Rightarrow> 'f \<Rightarrow> ('f, 'm) SceneManager \<Rightarrow> ('f, 'm) SceneManager" where
  "SetShaderColor redColorValue greenColorValue blueColorValue alphaValue s =
     (let currentColor = (redColorValue, greenColorValue, blueColorValue, alphaValue)
      in if m_pShaderManager s then
           emit (setVec4Value g_ColorValueName currentColor) (emit (setIntValue g_UseTextureName 0) s)
         else s)"

definition SetShaderTexture ::
  "string \<Rightarrow> ('f, 'm) SceneManager \<Rightarrow> ('f, 'm) SceneManager option" where
  "SetShaderTexture textureTag s =
     (if m_pShaderManager s then
        do {
          let s1 = emit (setIntValue g_UseTextureName 1) s;
          textureID \<leftarrow> FindTextureSlot s1 textureTag;
          Some (emit (setSampler2DValue g_TextureValueName textureID) s1)
        }
      else Some s)"

definition SetTextureUVScale ::
  "'f \<Rightarrow> 'f \<Rightarrow> ('f, 'm) SceneManager \<Rightarrow> ('f, 'm) SceneManager" where
  "SetTextureUVScale u v s =
     (if m_pShaderManager s then emit (setVec2Value ''UVscale'' (u, v)) s else s)"

text \<open>
  A call through \<open>m_pShaderManager\<close> that the source does not guard: undefined
  behaviour (\<open>None\<close>) when the pointer is NULL.
\<close>

definition shader_call ::
  "('f, 'm) call list \<Rightarrow> ('f, 'm) SceneManager \<Rightarrow> ('f, 'm) SceneManager option" where
  "shader_call cs s = (if m_pShaderManager s then Some (emits cs s) else None)"

definition SetShaderMaterial ::
  "('f, 'm) world \<Rightarrow> string \<Rightarrow> ('f, 'm) SceneManager \<Rightarrow> ('f, 'm) SceneManager option" where
  "SetShaderMaterial w materialTag s =
     (if length (m_objectMaterials s) > 0 then
        (let (bReturn, material) = FindMaterial s materialTag (uninit w)
         in if bReturn = True then
              shader_call
                [setVec3Value ''material.ambientColor'' (ambientColor material),
                 setFloatValue ''material.ambientStrength'' (ambientStrength material),
                 setVec3Value ''material.diffuseColor'' (diffuseColor material),
                 setVec3Value ''material.specularColor'' (specularColor material),
                 setFloatValue ''material.shininess'' (shininess material)] s
            else Some s)
      else Some s)"

definition SetupSceneLights_calls :: "('f, 'm) world \<Rightarrow> ('f, 'm) call list" where
  "SetupSceneLights_calls w =
     [setVec3Value ''dirLight.direction'' (vec3 w (-5/10) (-8/10) (8/10)),
      setVec3Value ''dirLight.ambient'' (vec3 w (3/10) (3/10) (3/10)),
      setVec3Value ''dirLight.diffuse'' (vec3 w (7/10) (7/10) (7/10)),
      setVec3Value ''spotLight.position'' (vec3 w (55/10) 4 (5/10)),
      setVec3Value ''spotLight.direction'' (vec3 w (-8/10) (-1) (-2/10)),
      setVec3Value ''spotLight.ambient'' (vec3 w (1/10) (1/10) (1/10)),
      setVec3Value ''spotLight.diffuse'' (vec3 w 1 (95/100) (8/10)),
      setVec3Value ''spotLight.specular'' (vec3 w 1 1 1),
      setFloatValue ''spotLight.constant'' (flit w 1),
      setFloatValue ''spotLight.linear'' (flit w (45/1000)),
      setFloatValue ''spotLight.quadratic'' (flit w (75/10000)),
      setFloatValue ''spotLight.cutOff'' (glm_cos w (glm_radians w (flit w 15))),
      setFloatValue ''spotLight.outerCutOff'' (glm_cos w (glm_radians w (flit w 25)))]"

definition SetupSceneLights ::
  "('f, 'm) world \<Rightarrow> ('f, 'm) SceneManager \<Rightarrow> ('f, 'm) SceneManager" where
  "SetupSceneLights w s =
     (if m_pShaderManager s then emits (SetupSceneLights_calls w) s else s)"

section \<open>Scene script\<close>

definition LoadSceneMaterials ::
  "('f, 'm) world \<Rightarrow> ('f, 'm) SceneManager \<Rightarrow> ('f, 'm) SceneManager" where
  "LoadSceneMaterials w s =
     (let marble = \<lparr> mtag = ''marble'', ambientColor = vec3 w (2/10) (2/10) (2/10),
                     ambientStrength = flit w (4/10), diffuseColor = vec3 w (9/10) (9/10) (9/10),
                     specularColor = vec3 w (3/10) (3/10) (3/10), shininess = flit w 16 \<rparr>;
          s = s\<lparr> m_objectMaterials := m_objectMaterials s @ [marble] \<rparr>;
          gold = \<lparr> mtag = ''gold'', ambientColor = vec3 w (25/100) (20/100) (7/100),
                   ambientStrength = flit w (3/10), diffuseColor = vec3 w (8/10) (65/100) (25/100),
                   specularColor = vec3 w (65/100) (55/100) (35/100), shininess = flit w (512/10) \<rparr>;
          s = s\<lparr> m_objectMaterials := m_objectMaterials s @ [gold] \<rparr>;
          granite = \<lparr> mtag = ''granite'', ambientColor = vec3 w (2/10) (2/10) (2/10),
                      ambientStrength = flit w (35/100), diffuseColor = vec3 w (6/10) (6/10) (6/10),
                      specularColor = vec3 w (2/10) (2/10) (2/10), shininess = flit w 8 \<rparr>;
          s = s\<lparr> m_objectMaterials := m_objectMaterials s @ [granite] \<rparr>;
          wall = \<lparr> mtag = ''wall'', ambientColor = vec3 w 1 1 1,
                   ambientStrength = flit w (5/10), diffuseColor = vec3 w 1 1 1,
                   specularColor = vec3 w (1/10) (1/10) (1/10), shininess = flit w 1 \<rparr>;
          s = s\<lparr> m_objectMaterials := m_objectMaterials s @ [wall] \<rparr>;
          lamp = \<lparr> mtag = ''lamp'', ambientColor = vec3 w 1 1 1,
                   ambientStrength = flit w (5/10), diffuseColor = vec3 w 1 1 1,
                   specularColor = vec3 w (2/10) (2/10) (2/10), shininess = flit w 2 \<rparr>;
          s = s\<lparr> m_objectMaterials := m_objectMaterials s @ [lamp] \<rparr>
      in s)"

text \<open>Every return value of CreateGLTexture is assigned to \<open>bReturn\<close> and never read.\<close>

definition LoadSceneTextures ::
  "('f, 'm) world \<Rightarrow> ('f, 'm) SceneManager \<Rightarrow> ('f, 'm) SceneManager option" where
  "LoadSceneTextures w s =
     do {
       (bReturn, s) \<leftarrow> CreateGLTexture w ''textures/wood.jpg'' ''wood'' s;
       (bReturn, s) \<leftarrow> CreateGLTexture w ''textures/wall.jpg'' ''wall'' s;
       (bReturn, s) \<leftarrow> CreateGLTexture w ''textures/pot.jpg'' ''pot'' s;
       (bReturn, s) \<leftarrow> CreateGLTexture w ''textures/leaf.jpg'' ''leaf'' s;
       (bReturn, s) \<leftarrow> CreateGLTexture w ''textures/lamp.jpg'' ''lamp'' s;
       (bReturn, s) \<leftarrow> CreateGLTexture w ''textures/marble.jpg'' ''marble'' s;
       (bReturn, s) \<leftarrow> CreateGLTexture w ''textures/granite.jpg'' ''granite'' s;
       (bReturn, s) \<leftarrow> CreateGLTexture w ''textures/gold.jpg'' ''gold'' s;
       BindGLTextures s
     }"

text \<open>
  PrepareScene, statement by statement: the list holds the state after each of its eleven
  statements (lines 409-423), in execution order.
\<close>

definition PrepareScene_steps ::
  "('f, 'm) world \<Rightarrow> ('f, 'm) SceneManager \<Rightarrow> ('f, 'm) SceneManager list option" where
  "PrepareScene_steps w s =
     do {
       s1 \<leftarrow> LoadSceneTextures w s;
       let s2 = LoadSceneMaterials w s1;
       let s3 = emit (LoadMesh Plane) s2;
       let s4 = emit (LoadMesh Box) s3;
       let s5 = emit (LoadMesh Cone) s4;
       let s6 = emit (LoadMesh Prism) s5;
       let s7 = emit (LoadMesh Pyramid3) s6;
       let s8 = emit (LoadMesh Sphere) s7;
       let s9 = emit (LoadMesh Torus) s8;
       let s10 = emit (LoadMesh TaperedCylinder) s9;
       let s11 = emit (LoadMesh Cylinder) s10;
       Some [s1, s2, s3, s4, s5, s6, s7, s8, s9, s10, s11]
     }"

text \<open>PrepareScene returns in the state its last statement leaves.\<close>

definition PrepareScene ::
  "('f, 'm) world \<Rightarrow> ('f, 'm) SceneManager \<Rightarrow> ('f, 'm) SceneManager option" where
  "PrepareScene w s = map_option last (PrepareScene_steps w s)"

text \<open>C++'s \<open>%\<close> on \<open>int\<close> truncates towards zero.\<close>

definition c_rem :: "int \<Rightarrow> int \<Rightarrow> int" where
  "c_rem a b = sgn a * (\<bar>a\<bar> mod \<bar>b\<bar>)"

text \<open>The leaf loop of RenderScene (lines 598-610), \<open>i\<close> running from its start value.\<close>

function RenderScene_leaves ::
  "('f, 'm) world \<Rightarrow> int \<Rightarrow> int \<Rightarrow> ('f, 'm) SceneManager \<Rightarrow> ('f, 'm) SceneManager" where
  "RenderScene_leaves w leafCount i s =
     (if i < leafCount then
        (let randomHeight = fadd w (flit w (15/10)) (fmul w (fint w (c_rem i 3)) (flit w (2/10)));
             scaleXYZ = (flit w (12/100), randomHeight, flit w (4/10));
             positionXYZ = vec3 w 2 (13/10) 0;
             yRotation = fmul w (fint w i) (fdiv w (flit w 360) (fint w leafCount));
             xTilt = fadd w (flit w 20) (fmul w (fint w i) (flit w 3));
             zLean = (if c_rem i 2 = 0 then flit w 5 else flit w (-5));
             s = SetTransformations w scaleXYZ xTilt yRotation zLean positionXYZ s;
             s = emit (DrawMesh TaperedCylinder) s
         in RenderScene_leaves w leafCount (i + 1) s)
      else s)"
  by pat_completeness auto
termination
  by (relation "measure (\<lambda>(w, leafCount, i, s). nat (leafCount - i))") auto

definition RenderScene ::
  "('f, 'm) world \<Rightarrow> ('f, 'm) SceneManager \<Rightarrow> ('f, 'm) SceneManager option" where
  "RenderScene w s =
     do {
       let s = SetupSceneLights w s;
       let scaleXYZ = vec3 w 40 1 40;
       let positionXYZ = vec3 w 0 4 (-10);
       let s = SetTransformations w scaleXYZ (flit w (-90)) (flit w 0) (flit w 0) positionXYZ s;
       s \<leftarrow> SetShaderTexture ''wall'' s;
       s \<leftarrow> shader_call [setIntValue ''bUseTexture'' 1] s;
       let s = SetTextureUVScale (flit w 1) (flit w 1) s;
       s \<leftarrow> SetShaderMaterial w ''wall'' s;
       let s = emit (DrawMesh Plane) s;

       let s = SetTransformations w (vec3 w 20 1 20) (flit w 0) (flit w 0) (flit w 0) (vec3 w 0 (-5/10) 0) s;
       s \<leftarrow> SetShaderMaterial w ''wall'' s;
       let s = SetShaderColor (flit w 1) (flit w 1) (flit w 1) (flit w 1) s;
       let s = emit (DrawMesh Plane) s;

       let scaleXYZ = vec3 w (15/10) (2/10) (15/10);
       let positionXYZ = vec3 w 5 0 0;
       let s = SetTransformations w scaleXYZ (flit w 0) (flit w 0) (flit w 0) positionXYZ s;
       s \<leftarrow> SetShaderMaterial w ''granite'' s;
       let s = SetShaderColor (flit w (85/100)) (flit w (85/100)) (flit w (85/100)) (flit w 1) s;
       let s = emit (DrawMesh Cylinder) s;

       let scaleXYZ = vec3 w (5/100) 4 (5/100);
       let positionXYZ = vec3 w 6 0 0;
       let s = SetTransformations w scaleXYZ (flit w 0) (flit w 0) (flit w 0) positionXYZ s;
       s \<leftarrow> SetShaderMaterial w ''lamp'' s;
       let s = emit (DrawMesh Cylinder) s;

       let scaleXYZ = vec3 w (12/10) (15/10) (12/10);
       let positionXYZ = vec3 w (55/10) (38/10) 0;
       let s = SetTransformations w scaleXYZ (flit w (-45)) (flit w 0) (flit w 0) positionXYZ s;
       s \<leftarrow> SetShaderMaterial w ''lamp'' s;
       let s = emit (DrawMesh TaperedCylinder) s;

       let scaleXYZ = vec3 w (2/10) (2/10) (2/10);
       let positionXYZ = vec3 w (55/10) (36/10) 0;
       let s = SetTransformations w scaleXYZ (flit w 0) (flit w 0) (flit w 0) positionXYZ s;
       let s = SetShaderColor (flit w 1) (flit w 1) (flit w 0) (flit w 1) s;
       s \<leftarrow> shader_call [setIntValue ''bUseTexture'' 0] s;
       let s = emit (DrawMesh Sphere) s;

       let scaleXYZ = vec3 w (15/100) (3/10) (15/100);
       let positionXYZ = vec3 w 6 4 (-2/10);
       let s = SetTransformations w scaleXYZ (flit w 0) (flit w 0) (flit w 90) positionXYZ s;
       s \<leftarrow> SetShaderMaterial w ''gold'' s;
       let s = emit (DrawMesh Cylinder) s;

       let scaleXYZ = vec3 w (16/10) (5/100) (16/10);
       let positionXYZ = vec3 w (-2) 7 (-495/100);
       let s = SetTransformations w scaleXYZ (flit w 90) (flit w 0) (flit w 0) positionXYZ s;
       s \<leftarrow> SetShaderMaterial w ''marble'' s;
       s \<leftarrow> shader_call [setIntValue ''bUseTexture'' 0] s;
       let s = SetShaderColor (flit w (2/10)) (flit w (2/10)) (flit w (2/10)) (flit w 1) s;
       let s = emit (DrawMesh Cylinder) s;

       let scaleXYZ = vec3 w (15/10) (1/10) (15/10);
       let positionXYZ = vec3 w (-2) 7 (-49/10);
       let s = SetTransformations w scaleXYZ (flit w 90) (flit w 0) (flit w 0) positionXYZ s;
       s \<leftarrow> SetShaderTexture ''wood'' s;
       s \<leftarrow> shader_call [setIntValue ''bUseTexture'' 1] s;
       let s = emit (DrawMesh Cylinder) s;

       let scaleXYZ = vec3 w (12/10) 1 (12/10);
       let positionXYZ = vec3 w 2 (5/10) 0;
       let s = SetTransformations w scaleXYZ (flit w 0) (flit w 0) (flit w 0) positionXYZ s;
       s \<leftarrow> SetShaderMaterial w ''granite'' s;
       let s = SetShaderColor (flit w (8/10)) (flit w (8/10)) (flit w (8/10)) (flit w 1) s;
       let s = emit (DrawMesh Sphere) s;

       s \<leftarrow> shader_call [setIntValue ''bUseTexture'' 1] s;
       s \<leftarrow> SetShaderTexture ''leaf'' s;
       let leafCount = 10;
       Some (RenderScene_leaves w leafCount 0 s)
     }"

section \<open>Observations on states and traces\<close>

text \<open>The tags of the registered entries, slots \<open>0 .. m_loadedTextures - 1\<close>, in slot order.\<close>

definition registered_tags :: "('f, 'm) SceneManager \<Rightarrow> string list" where
  "registered_tags s = map (\<lambda>i. tag (m_textureIDs s i)) [0..<nat (m_loadedTextures s)]"

text \<open>The file and tag of the eight CreateGLTexture calls of LoadSceneTextures, in order.\<close>

definition scene_texture_files :: "(string \<times> string) list" where
  "scene_texture_files =
     [(''textures/wood.jpg'', ''wood''), (''textures/wall.jpg'', ''wall''),
      (''textures/pot.jpg'', ''pot''), (''textures/leaf.jpg'', ''leaf''),
      (''textures/lamp.jpg'', ''lamp''), (''textures/marble.jpg'', ''marble''),
      (''textures/granite.jpg'', ''granite''), (''textures/gold.jpg'', ''gold'')]"

text \<open>
  A run of CreateGLTexture calls whose results are ignored; on a prefix of
  \<open>scene_texture_files\<close> it gives the state LoadSceneTextures has reached after that
  many of its calls.
\<close>

fun load_texture_list ::
  "('f, 'm) world \<Rightarrow> (string \<times> string) list \<Rightarrow> ('f, 'm) SceneManager \<Rightarrow> ('f, 'm) SceneManager option" where
  "load_texture_list w [] s = Some s"
| "load_texture_list w ((filename, tg) # rest) s =
     (case CreateGLTexture w filename tg s of
        None \<Rightarrow> None
      | Some (bReturn, s') \<Rightarrow> load_texture_list w rest s')"

text \<open>The mesh kinds drawn, in trace order.\<close>

fun draws :: "('f, 'm) call list \<Rightarrow> mesh list" where
  "draws [] = []"
| "draws (DrawMesh k # cs) = k # draws cs"
| "draws (c # cs) = draws cs"

text \<open>Calls into the mesh library.\<close>

fun is_mesh_call :: "('f, 'm) call \<Rightarrow> bool" where
  "is_mesh_call (LoadMesh k) = True"
| "is_mesh_call (DrawMesh k) = True"
| "is_mesh_call c = False"

text \<open>Calls to std::cout.\<close>

fun is_log :: "('f, 'm) call \<Rightarrow> bool" where
  "is_log (cout_loaded f a b c) = True"
| "is_log (cout_channels c) = True"
| "is_log (cout_failed f) = True"
| "is_log c = False"

text \<open>
  The calls that decide how a mesh is drawn as far as the scene script is concerned:
  uploads of the model matrix, writes to the texture flag, and the draws themselves.
\<close>

fun is_render_call :: "('f, 'm) call \<Rightarrow> bool" where
  "is_render_call (DrawMesh k) = True"
| "is_render_call (setMat4Value n m) = (n = ''model'')"
| "is_render_call (setIntValue n v) = (n = ''bUseTexture'')"
| "is_render_call c = False"

text \<open>The value an int uniform holds after a trace: the last one written, if any.\<close>

fun uniform_int :: "string \<Rightarrow> ('f, 'm) call list \<Rightarrow> int option" where
  "uniform_int name [] = None"
| "uniform_int name (c # cs) =
     (case uniform_int name cs of
        Some v \<Rightarrow> Some v
      | None \<Rightarrow> (case c of setIntValue n v \<Rightarrow> (if n = name then Some v else None) | _ \<Rightarrow> None))"

text \<open>The five uploads SetShaderMaterial makes for a material.\<close>

definition material_calls :: "'f OBJECT_MATERIAL \<Rightarrow> ('f, 'm) call list" where
  "material_calls material =
     [setVec3Value ''material.ambientColor'' (ambientColor material),
      setFloatValue ''material.ambientStrength'' (ambientStrength material),
      setVec3Value ''material.diffuseColor'' (diffuseColor material),
      setVec3Value ''material.specularColor'' (specularColor material),
      setFloatValue ''material.shininess'' (shininess material)]"

text \<open>The files handed to stbi\_load, in trace order.\<close>

fun loaded_files :: "('f, 'm) call list \<Rightarrow> string list" where
  "loaded_files [] = []"
| "loaded_files (stbi_load_file f # cs) = f # loaded_files cs"
| "loaded_files (c # cs) = loaded_files cs"

text \<open>
  What SetShaderMaterial uploads for a tag, given the material table: nothing for an
  empty table, otherwise the five values of the local \<open>material\<close> after FindMaterial's
  loop.
\<close>

definition SetShaderMaterial_calls ::
  "('f, 'm) world \<Rightarrow> 'f OBJECT_MATERIAL list \<Rightarrow> string \<Rightarrow> ('f, 'm) call list" where
  "SetShaderMaterial_calls w mats tg =
     (if length mats > 0 then material_calls (FindMaterial_loop mats tg (uninit w) 0 False)
      else [])"

text \<open>
  The ten fixed objects of RenderScene in source order (lines 516-591): the model matrix
  of the object, the values written to the texture flag between the matrix upload and
  the draw, and the mesh drawn.
\<close>

definition scene_objects :: "('f, 'm) world \<Rightarrow> ('m \<times> int list \<times> mesh) list" where
  "scene_objects w =
     [(modelView w (vec3 w 40 1 40) (flit w (-90)) (flit w 0) (flit w 0) (vec3 w 0 4 (-10)),
         [1, 1], Plane),
      (modelView w (vec3 w 20 1 20) (flit w 0) (flit w 0) (flit w 0) (vec3 w 0 (-5/10) 0),
         [0], Plane),
      (modelView w (vec3 w (15/10) (2/10) (15/10)) (flit w 0) (flit w 0) (flit w 0) (vec3 w 5 0 0),
         [0], Cylinder),
      (modelView w (vec3 w (5/100) 4 (5/100)) (flit w 0) (flit w 0) (flit w 0) (vec3 w 6 0 0),
         [], Cylinder),
      (modelView w (vec3 w (12/10) (15/10) (12/10)) (flit w (-45)) (flit w 0) (flit w 0)
           (vec3 w (55/10) (38/10) 0),
         [], TaperedCylinder),
      (modelView w (vec3 w (2/10) (2/10) (2/10)) (flit w 0) (flit w 0) (flit w 0)
           (vec3 w (55/10) (36/10) 0),
         [0, 0], Sphere),
      (modelView w (vec3 w (15/100) (3/10) (15/100)) (flit w 0) (flit w 0) (flit w 90)
           (vec3 w 6 4 (-2/10)),
         [], Cylinder),
      (modelView w (vec3 w (16/10) (5/100) (16/10)) (flit w 90) (flit w 0) (flit w 0)
           (vec3 w (-2) 7 (-495/100)),
         [0, 0], Cylinder),
      (modelView w (vec3 w (15/10) (1/10) (15/10)) (flit w 90) (flit w 0) (flit w 0)
           (vec3 w (-2) 7 (-49/10)),
         [1, 1], Cylinder),
      (modelView w (vec3 w (12/10) 1 (12/10)) (flit w 0) (flit w 0) (flit w 0) (vec3 w 2 (5/10) 0),
         [0], Sphere)]"

fun object_calls :: "'m \<times> int list \<times> mesh \<Rightarrow> ('f, 'm) call list" where
  "object_calls (mv, flags, k) =
     setMat4Value ''model'' mv # map (setIntValue ''bUseTexture'') flags @ [DrawMesh k]"

text \<open>
  The two calls SetShaderColor makes for a colour, and the two calls SetShaderTexture
  makes when FindTextureSlot has returned \<open>slot\<close>.
\<close>

definition color_calls :: "'f vec4 \<Rightarrow> ('f, 'm) call list" where
  "color_calls c = [setIntValue ''bUseTexture'' 0, setVec4Value ''objectColor'' c]"

definition texture_calls :: "int \<Rightarrow> ('f, 'm) call list" where
  "texture_calls slot = [setIntValue ''bUseTexture'' 1, setSampler2DValue ''objectTexture'' slot]"

text \<open>
  The calls RenderScene makes for each of its ten fixed objects (lines 516-591), one list
  per object: the upload of the object's model matrix, then its material, texture and
  colour calls, then its draw.  \<open>mats\<close> is the material table, \<open>wall_slot\<close> and
  \<open>wood_slot\<close> are what FindTextureSlot returns for the tags "wall" and "wood".
\<close>

definition scene_segments ::
  "('f, 'm) world \<Rightarrow> 'f OBJECT_MATERIAL list \<Rightarrow> int \<Rightarrow> int \<Rightarrow> ('f, 'm) call list list" where
  "scene_segments w mats wall_slot wood_slot =
     [setMat4Value ''model''
          (modelView w (vec3 w 40 1 40) (flit w (-90)) (flit w 0) (flit w 0) (vec3 w 0 4 (-10))) #
        texture_calls wall_slot @
        [setIntValue ''bUseTexture'' 1, setVec2Value ''UVscale'' (flit w 1, flit w 1)] @
        SetShaderMaterial_calls w mats ''wall'' @
        [DrawMesh Plane],
      setMat4Value ''model''
          (modelView w (vec3 w 20 1 20) (flit w 0) (flit w 0) (flit w 0) (vec3 w 0 (-5/10) 0)) #
        SetShaderMaterial_calls w mats ''wall'' @
        color_calls (flit w 1, flit w 1, flit w 1, flit w 1) @
        [DrawMesh Plane],
      setMat4Value ''model''
          (modelView w (vec3 w (15/10) (2/10) (15/10)) (flit w 0) (flit w 0) (flit w 0)
             (vec3 w 5 0 0)) #
        SetShaderMaterial_calls w mats ''granite'' @
        color_calls (flit w (85/100), flit w (85/100), flit w (85/100), flit w 1) @
        [DrawMesh Cylinder],
      setMat4Value ''model''
          (modelView w (vec3 w (5/100) 4 (5/100)) (flit w 0) (flit w 0) (flit w 0) (vec3 w 6 0 0)) #
        SetShaderMaterial_calls w mats ''lamp'' @
        [DrawMesh Cylinder],
      setMat4Value ''model''
          (modelView w (vec3 w (12/10) (15/10) (12/10)) (flit w (-45)) (flit w 0) (flit w 0)
             (vec3 w (55/10) (38/10) 0)) #
        SetShaderMaterial_calls w mats ''lamp'' @
        [DrawMesh TaperedCylinder],
      setMat4Value ''model''
          (modelView w (vec3 w (2/10) (2/10) (2/10)) (flit w 0) (flit w 0) (flit w 0)
             (vec3 w (55/10) (36/10) 0)) #
        color_calls (flit w 1, flit w 1, flit w 0, flit w 1) @
        [setIntValue ''bUseTexture'' 0] @
        [DrawMesh Sphere],
      setMat4Value ''model''
          (modelView w (vec3 w (15/100) (3/10) (15/100)) (flit w 0) (flit w 0) (flit w 90)
             (vec3 w 6 4 (-2/10))) #
        SetShaderMaterial_calls w mats ''gold'' @
        [DrawMesh Cylinder],
      setMat4Value ''model''
          (modelView w (vec3 w (16/10) (5/100) (16/10)) (flit w 90) (flit w 0) (flit w 0)
             (vec3 w (-2) 7 (-495/100))) #
        SetShaderMaterial_calls w mats ''marble'' @
        [setIntValue ''bUseTexture'' 0] @
        color_calls (flit w (2/10), flit w (2/10), flit w (2/10), flit w 1) @
        [DrawMesh Cylinder],
      setMat4Value ''model''
          (modelView w (vec3 w (15/10) (1/10) (15/10)) (flit w 90) (flit w 0) (flit w 0)
             (vec3 w (-2) 7 (-49/10))) #
        texture_calls wood_slot @
        [setIntValue ''bUseTexture'' 1] @
        [DrawMesh Cylinder],
      setMat4Value ''model''
          (modelView w (vec3 w (12/10) 1 (12/10)) (flit w 0) (flit w 0) (flit w 0)
             (vec3 w 2 (5/10) 0)) #
        SetShaderMaterial_calls w mats ''granite'' @
        color_calls (flit w (8/10), flit w (8/10), flit w (8/10), flit w 1) @
        [DrawMesh Sphere]]"

text \<open>The scale, X tilt and Z lean the leaf loop computes for leaf \<open>i\<close> (lines 599-606).\<close>

definition leaf_scale :: "('f, 'm) world \<Rightarrow> int \<Rightarrow> 'f vec3" where
  "leaf_scale w i =
     (flit w (12/100), fadd w (flit w (15/10)) (fmul w (fint w (c_rem i 3)) (flit w (2/10))),
      flit w (4/10))"

definition leaf_xTilt :: "('f, 'm) world \<Rightarrow> int \<Rightarrow> 'f" where
  "leaf_xTilt w i = fadd w (flit w 20) (fmul w (fint w i) (flit w 3))"

definition leaf_zLean :: "('f, 'm) world \<Rightarrow> int \<Rightarrow> 'f" where
  "leaf_zLean w i = (if c_rem i 2 = 0 then flit w 5 else flit w (-5))"

text \<open>The two calls of one pass of the leaf loop.\<close>

definition leaf_calls :: "('f, 'm) world \<Rightarrow> int \<Rightarrow> int \<Rightarrow> ('f, 'm) call list" where
  "leaf_calls w leafCount i =
     [setMat4Value ''model''
        (modelView w (leaf_scale w i) (leaf_xTilt w i)
           (fmul w (fint w i) (fdiv w (flit w 360) (fint w leafCount)))
           (leaf_zLean w i) (vec3 w 2 (13/10) 0)),
      DrawMesh TaperedCylinder]"

section \<open>A concrete world and concrete states\<close>

text \<open>
  Floats and matrices as the expressions that compute them; three of the eight image
  files load (one of them with a single channel), the driver numbers textures from 1.
\<close>

datatype fexp = Lit rat | OfInt int | Add fexp fexp | Mul fexp fexp | Div fexp fexp
  | Cos fexp | Radians fexp

datatype mexp = Scale "fexp vec3" | Rotate fexp "fexp vec3" | Translate "fexp vec3"
  | MatMul mexp mexp

definition demo_files :: "string \<Rightarrow> (int \<times> int \<times> int) option" where
  "demo_files f =
     (if f = ''textures/wood.jpg'' then Some (512, 512, 3)
      else if f = ''textures/wall.jpg'' then Some (256, 128, 4)
      else if f = ''textures/pot.jpg'' then Some (64, 64, 1)
      else None)"

definition demo_names :: "nat \<Rightarrow> 32 word" where
  "demo_names n = of_nat n + 1"

definition demo_world :: "(fexp, mexp) world" where
  "demo_world =
     \<lparr> stbi_load = demo_files, gen_name = demo_names,
       flit = Lit, fint = OfInt, fadd = Add, fmul = Mul, fdiv = Div,
       glm_cos = Cos, glm_radians = Radians,
       glm_scale = Scale, glm_rotate = Rotate, glm_translate = Translate, mat_mul = MatMul,
       uninit = \<lparr> mtag = [], ambientColor = (Lit 0, Lit 0, Lit 0), ambientStrength = Lit 0,
                  diffuseColor = (Lit 0, Lit 0, Lit 0), specularColor = (Lit 0, Lit 0, Lit 0),
                  shininess = Lit 0 \<rparr> \<rparr>"

definition zero_ids :: "nat \<Rightarrow> 32 word" where
  "zero_ids i = 0"

definition fresh_scene :: "(fexp, mexp) SceneManager" where
  "fresh_scene = SceneManager_new True zero_ids"

definition null_shader_scene :: "(fexp, mexp) SceneManager" where
  "null_shader_scene = SceneManager_new False zero_ids"

definition demo_slots :: "nat \<Rightarrow> TEXTURE_INFO" where
  "demo_slots i =
     (if i = 0 then \<lparr> tag = ''wood'', ID = 7 \<rparr>
      else if i = 1 then \<lparr> tag = ''wall'', ID = 9 \<rparr>
      else if i = 2 then \<lparr> tag = ''wall'', ID = 11 \<rparr>
      else \<lparr> tag = [], ID = 0 \<rparr>)"

definition demo_registry :: "(fexp, mexp) SceneManager" where
  "demo_registry = fresh_scene \<lparr> m_loadedTextures := 3, m_textureIDs := demo_slots \<rparr>"

definition furnished_scene :: "(fexp, mexp) SceneManager" where
  "furnished_scene = LoadSceneMaterials demo_world demo_registry"

definition full_registry :: "(fexp, mexp) SceneManager" where
  "full_registry = fresh_scene \<lparr> m_loadedTextures := 16 \<rparr>"

section \<open>Basic facts\<close>

lemma emit_fields [simp]:
  "m_pShaderManager (emit c s) = m_pShaderManager s"
  "m_loadedTextures (emit c s) = m_loadedTextures s"
  "m_textureIDs (emit c s) = m_textureIDs s"
  "m_objectMaterials (emit c s) = m_objectMaterials s"
  "gl_generated (emit c s) = gl_generated s"
  "trace (emit c s) = trace s @ [c]"
  by (simp_all add: emit_def)

lemma emits_fields [simp]:
  "m_pShaderManager (emits cs s) = m_pShaderManager s"
  "m_loadedTextures (emits cs s) = m_loadedTextures s"
  "m_textureIDs (emits cs s) = m_textureIDs s"
  "m_objectMaterials (emits cs s) = m_objectMaterials s"
  "gl_generated (emits cs s) = gl_generated s"
  "trace (emits cs s) = trace s @ cs"
  by (simp_all add: emits_def)

declare FindTextureID_loop.simps [simp del] FindTextureSlot_loop.simps [simp del]
  BindGLTextures_loop.simps [simp del] DestroyGLTextures_loop.simps [simp del]
  FindMaterial_loop.simps [simp del] RenderScene_leaves.simps [simp del]

lemma FindTextureSlot_loop_absent:
  "m_loadedTextures s \<le> capacity \<Longrightarrow> 0 \<le> index \<Longrightarrow>
   \<forall>j. index \<le> j \<and> j < m_loadedTextures s \<longrightarrow> tag (m_textureIDs s (nat j)) \<noteq> tg \<Longrightarrow>
   FindTextureSlot_loop s tg t index False = Some t"
proof (induction s tg t index "False" rule: FindTextureSlot_loop.induct)
  case (1 s tg textureSlot index)
  show ?case
  proof (cases "index < m_loadedTextures s")
    case True
    with 1 show ?thesis
      by (subst FindTextureSlot_loop.simps) (auto simp: in_bounds_def)
  next
    case False
    then show ?thesis by (subst FindTextureSlot_loop.simps) simp
  qed
qed

lemma FindTextureSlot_loop_first:
  "m_loadedTextures s \<le> capacity \<Longrightarrow> 0 \<le> index \<Longrightarrow> index \<le> i \<Longrightarrow> i < m_loadedTextures s \<Longrightarrow>
   tag (m_textureIDs s (nat i)) = tg \<Longrightarrow>
   \<forall>j. index \<le> j \<and> j < i \<longrightarrow> tag (m_textureIDs s (nat j)) \<noteq> tg \<Longrightarrow>
   FindTextureSlot_loop s tg t index False = Some i"
proof (induction s tg t index "False" rule: FindTextureSlot_loop.induct)
  case (1 s tg textureSlot index)
  show ?case
  proof (cases "index = i")
    case True
    with 1(3-) show ?thesis
      by (simp add: FindTextureSlot_loop.simps [of s tg _ i] in_bounds_def)
  next
    case False
    with 1 show ?thesis
      by (subst FindTextureSlot_loop.simps) (auto simp: in_bounds_def)
  qed
qed


lemma FindTextureID_loop_absent:
  "m_loadedTextures s \<le> capacity \<Longrightarrow> 0 \<le> index \<Longrightarrow>
   \<forall>j. index \<le> j \<and> j < m_loadedTextures s \<longrightarrow> tag (m_textureIDs s (nat j)) \<noteq> tg \<Longrightarrow>
   FindTextureID_loop s tg t index False = Some t"
proof (induction s tg t index "False" rule: FindTextureID_loop.induct)
  case (1 s tg textureID index)
  show ?case
  proof (cases "index < m_loadedTextures s")
    case True
    with 1 show ?thesis
      by (subst FindTextureID_loop.simps) (auto simp: in_bounds_def)
  next
    case False
    then show ?thesis by (subst FindTextureID_loop.simps) simp
  qed
qed

lemma FindTextureID_loop_first:
  "m_loadedTextures s \<le> capacity \<Longrightarrow> 0 \<le> index \<Longrightarrow> index \<le> i \<Longrightarrow> i < m_loadedTextures s \<Longrightarrow>
   tag (m_textureIDs s (nat i)) = tg \<Longrightarrow>
   \<forall>j. index \<le> j \<and> j < i \<longrightarrow> tag (m_textureIDs s (nat j)) \<noteq> tg \<Longrightarrow>
   FindTextureID_loop s tg t index False = Some (sint (ID (m_textureIDs s (nat i))))"
proof (induction s tg t index "False" rule: FindTextureID_loop.induct)
  case (1 s tg textureID index)
  show ?case
  proof (cases "index = i")
    case True
    with 1(3-) show ?thesis
      by (simp add: FindTextureID_loop.simps [of s tg _ i] in_bounds_def)
  next
    case False
    with 1 show ?thesis
      by (subst FindTextureID_loop.simps) (auto simp: in_bounds_def)
  qed
qed

section \<open>Texture lookup\<close>

text \<open>
  C3.  In a registry whose count is within the array's capacity, FindTextureID and
  FindTextureSlot scan the slots from index 0: if slot \<open>i\<close> is the first registered slot
  whose tag equals the query, FindTextureID returns that slot's GPU handle (the
  \<open>uint32_t\<close> converted to the \<open>int\<close> return type) and FindTextureSlot returns \<open>i\<close>; if no
  registered slot has the tag, both return the sentinel -1.  Neither fails.
\<close>

theorem texture_lookup_first_match:
  assumes "m_loadedTextures s \<le> capacity"
  shows "(\<forall>i. 0 \<le> i \<and> i < m_loadedTextures s \<and> tag (m_textureIDs s (nat i)) = tg \<and>
              (\<forall>j. 0 \<le> j \<and> j < i \<longrightarrow> tag (m_textureIDs s (nat j)) \<noteq> tg) \<longrightarrow>
            FindTextureID s tg = Some (sint (ID (m_textureIDs s (nat i)))) \<and>
            FindTextureSlot s tg = Some i) \<and>
         ((\<forall>i. 0 \<le> i \<and> i < m_loadedTextures s \<longrightarrow> tag (m_textureIDs s (nat i)) \<noteq> tg) \<longrightarrow>
            FindTextureID s tg = Some (- 1) \<and> FindTextureSlot s tg = Some (- 1))"
  unfolding FindTextureID_def FindTextureSlot_def
  using assms
  by (intro conjI allI impI;
      (elim conjE)?;
      (rule FindTextureID_loop_first FindTextureSlot_loop_first
            FindTextureID_loop_absent FindTextureSlot_loop_absent); simp)


theorem texture_lookup_first_match_witness:
  "m_loadedTextures demo_registry \<le> capacity \<and>
   FindTextureID demo_registry ''wall'' = Some 9 \<and> FindTextureSlot demo_registry ''wall'' = Some 1 \<and>
   FindTextureID demo_registry ''gold'' = Some (- 1) \<and> FindTextureSlot demo_registry ''gold'' = Some (- 1)"
proof -
  have cap: "m_loadedTextures demo_registry \<le> capacity"
    by (simp add: demo_registry_def capacity_def)
  have found: "0 \<le> (1::int) \<and> 1 < m_loadedTextures demo_registry \<and>
      tag (m_textureIDs demo_registry (nat 1)) = ''wall'' \<and>
      (\<forall>j. 0 \<le> j \<and> j < 1 \<longrightarrow> tag (m_textureIDs demo_registry (nat j)) \<noteq> ''wall'')"
    by (simp add: demo_registry_def demo_slots_def)
  have absent: "\<forall>i. 0 \<le> i \<and> i < m_loadedTextures demo_registry \<longrightarrow>
      tag (m_textureIDs demo_registry (nat i)) \<noteq> ''gold''"
    by (simp add: demo_registry_def demo_slots_def)
  have "sint (ID (m_textureIDs demo_registry (nat 1))) = 9"
    by (simp add: demo_registry_def demo_slots_def)
  with texture_lookup_first_match [OF cap, of "''wall''"]
       texture_lookup_first_match [OF cap, of "''gold''"] found absent cap
  show ?thesis by metis
qed

section \<open>Material lookup\<close>

text \<open>A tag that is present: the first preset carrying it is copied, field by field.\<close>

lemma FindMaterial_loop_first:
  "i < length mats \<Longrightarrow> index \<le> i \<Longrightarrow> mtag (mats ! i) = tg \<Longrightarrow>
   \<forall>j. index \<le> j \<and> j < i \<longrightarrow> mtag (mats ! j) \<noteq> tg \<Longrightarrow>
   FindMaterial_loop mats tg m index False =
     m\<lparr> ambientColor := ambientColor (mats ! i),
        ambientStrength := ambientStrength (mats ! i),
        diffuseColor := diffuseColor (mats ! i),
        specularColor := specularColor (mats ! i),
        shininess := shininess (mats ! i) \<rparr>"
proof (induction mats tg m index "False" rule: FindMaterial_loop.induct)
  case (1 mats tg material index)
  show ?case
  proof (cases "index = i")
    case True
    with 1(3-) show ?thesis
      by (simp add: FindMaterial_loop.simps [of mats tg _ i])
  next
    case False
    with 1 show ?thesis
      by (subst FindMaterial_loop.simps) auto
  qed
qed

lemma FindMaterial_known_tag:
  assumes "i < length (m_objectMaterials s)" "mtag (m_objectMaterials s ! i) = tg"
    "\<forall>j < i. mtag (m_objectMaterials s ! j) \<noteq> tg"
  shows "FindMaterial s tg m =
     (True, m\<lparr> ambientColor := ambientColor (m_objectMaterials s ! i),
               ambientStrength := ambientStrength (m_objectMaterials s ! i),
               diffuseColor := diffuseColor (m_objectMaterials s ! i),
               specularColor := specularColor (m_objectMaterials s ! i),
               shininess := shininess (m_objectMaterials s ! i) \<rparr>)"
  using assms FindMaterial_loop_first [of i "m_objectMaterials s" 0 tg m]
  by (auto simp: FindMaterial_def)

lemma FindMaterial_empty_table:
  "m_objectMaterials s = [] \<Longrightarrow> FindMaterial s tg m = (False, m)"
  by (simp add: FindMaterial_def)

text \<open>
  C1.  FindMaterial on the scene's own material table, asked for the tag "glass" that
  no preset carries: the source returns \<open>true\<close> (its last statement is
  \<open>return(true)\<close>, whatever \<open>bFound\<close> holds) and leaves the output material as it was,
  where the claim has it return \<open>false\<close>.
\<close>

theorem FindMaterial_unknown_tag_returns_true:
  "FindMaterial (LoadSceneMaterials demo_world fresh_scene) ''glass'' (uninit demo_world)
     = (True, uninit demo_world)"
  by (simp add: FindMaterial_def LoadSceneMaterials_def fresh_scene_def SceneManager_new_def
      FindMaterial_loop.simps Let_def)

section \<open>Regenerating the texture handles\<close>

lemma gen_texture_fields [simp]:
  "fst (gen_texture w s) = gen_name w (gl_generated s)"
  "m_pShaderManager (snd (gen_texture w s)) = m_pShaderManager s"
  "m_loadedTextures (snd (gen_texture w s)) = m_loadedTextures s"
  "m_textureIDs (snd (gen_texture w s)) = m_textureIDs s"
  "m_objectMaterials (snd (gen_texture w s)) = m_objectMaterials s"
  "gl_generated (snd (gen_texture w s)) = Suc (gl_generated s)"
  "trace (snd (gen_texture w s)) = trace s @ [glGenTextures (gen_name w (gl_generated s))]"
  by (simp_all add: gen_texture_def Let_def)

lemma DestroyGLTextures_loop_effect:
  "m_loadedTextures s \<le> capacity \<Longrightarrow> 0 \<le> i \<Longrightarrow>
   \<exists>s'. DestroyGLTextures_loop w i s = Some s' \<and>
        m_loadedTextures s' = m_loadedTextures s \<and>
        m_pShaderManager s' = m_pShaderManager s \<and>
        m_objectMaterials s' = m_objectMaterials s \<and>
        gl_generated s' = gl_generated s + nat (m_loadedTextures s - i) \<and>
        (\<forall>k. m_textureIDs s' k =
              (if i \<le> int k \<and> int k < m_loadedTextures s
               then (m_textureIDs s k)\<lparr> ID := gen_name w (gl_generated s + (k - nat i)) \<rparr>
               else m_textureIDs s k)) \<and>
        trace s' = trace s @ map (\<lambda>k. glGenTextures (gen_name w (gl_generated s + k)))
                               [0..<nat (m_loadedTextures s - i)]"
proof (induction w i s rule: DestroyGLTextures_loop.induct)
  case (1 w i s)
  show ?case
  proof (cases "i < m_loadedTextures s")
    case False
    then show ?thesis
      by (subst DestroyGLTextures_loop.simps) auto
  next
    case True
    define s1 where "s1 = (snd (gen_texture w s))
        \<lparr> m_textureIDs := (m_textureIDs (snd (gen_texture w s)))
            (nat i := (m_textureIDs (snd (gen_texture w s)) (nat i))\<lparr> ID := fst (gen_texture w s) \<rparr>) \<rparr>"
    have ib: "in_bounds i" using True 1(2,3) by (simp add: in_bounds_def)
    have unfold: "DestroyGLTextures_loop w i s = DestroyGLTextures_loop w (i + 1) s1"
      using True ib
      by (subst DestroyGLTextures_loop.simps) (simp add: s1_def split_beta Let_def)
    have s1_fields: "m_loadedTextures s1 = m_loadedTextures s" "m_pShaderManager s1 = m_pShaderManager s"
      "m_objectMaterials s1 = m_objectMaterials s" "gl_generated s1 = Suc (gl_generated s)"
      "trace s1 = trace s @ [glGenTextures (gen_name w (gl_generated s))]"
      "m_textureIDs s1 = (m_textureIDs s)(nat i := (m_textureIDs s (nat i))\<lparr> ID := gen_name w (gl_generated s) \<rparr>)"
      by (simp_all add: s1_def)
    have IH: "\<exists>s'. DestroyGLTextures_loop w (i + 1) s1 = Some s' \<and>
        m_loadedTextures s' = m_loadedTextures s1 \<and>
        m_pShaderManager s' = m_pShaderManager s1 \<and>
        m_objectMaterials s' = m_objectMaterials s1 \<and>
        gl_generated s' = gl_generated s1 + nat (m_loadedTextures s1 - (i + 1)) \<and>
        (\<forall>k. m_textureIDs s' k =
              (if i + 1 \<le> int k \<and> int k < m_loadedTextures s1
               then (m_textureIDs s1 k)\<lparr> ID := gen_name w (gl_generated s1 + (k - nat (i + 1))) \<rparr>
               else m_textureIDs s1 k)) \<and>
        trace s' = trace s1 @ map (\<lambda>k. glGenTextures (gen_name w (gl_generated s1 + k)))
                               [0..<nat (m_loadedTextures s1 - (i + 1))]"
      unfolding s1_def
    proof (rule 1(1) [OF True ib refl, of "fst (gen_texture w s)" "snd (gen_texture w s)"])
      show "(fst (gen_texture w s), snd (gen_texture w s)) = gen_texture w s" by (rule prod.collapse)
      show "m_loadedTextures (snd (gen_texture w s)
        \<lparr> m_textureIDs := (m_textureIDs (snd (gen_texture w s)))
            (nat i := (m_textureIDs (snd (gen_texture w s)) (nat i))\<lparr> ID := fst (gen_texture w s) \<rparr>) \<rparr>) \<le> capacity"
        using 1(2) by simp
      show "0 \<le> i + 1" using 1(3) by simp
    qed
    then obtain s' where s': "DestroyGLTextures_loop w (i + 1) s1 = Some s'"
      "m_loadedTextures s' = m_loadedTextures s1"
      "m_pShaderManager s' = m_pShaderManager s1"
      "m_objectMaterials s' = m_objectMaterials s1"
      "gl_generated s' = gl_generated s1 + nat (m_loadedTextures s1 - (i + 1))"
      "\<And>k. m_textureIDs s' k =
              (if i + 1 \<le> int k \<and> int k < m_loadedTextures s1
               then (m_textureIDs s1 k)\<lparr> ID := gen_name w (gl_generated s1 + (k - nat (i + 1))) \<rparr>
               else m_textureIDs s1 k)"
      "trace s' = trace s1 @ map (\<lambda>k. glGenTextures (gen_name w (gl_generated s1 + k)))
                               [0..<nat (m_loadedTextures s1 - (i + 1))]"
      by blast
    have n: "nat (m_loadedTextures s - i) = Suc (nat (m_loadedTextures s - (i + 1)))"
      using True by simp
    have tr: "trace s' = trace s @ map (\<lambda>k. glGenTextures (gen_name w (gl_generated s + k)))
                               [0..<nat (m_loadedTextures s - i)]"
      unfolding s'(7) s1_fields n
      by (simp add: upt_conv_Cons map_Suc_upt [symmetric] del: upt_Suc)
    have ids: "m_textureIDs s' k =
              (if i \<le> int k \<and> int k < m_loadedTextures s
               then (m_textureIDs s k)\<lparr> ID := gen_name w (gl_generated s + (k - nat i)) \<rparr>
               else m_textureIDs s k)" for k
    proof (cases "int k = i")
      case True
      then have "k = nat i" by simp
      with \<open>i < m_loadedTextures s\<close> 1(3) show ?thesis
        unfolding s'(6) s1_fields by simp
    next
      case False
      then have "k \<noteq> nat i" using 1(3) by auto
      moreover have "i + 1 \<le> int k \<Longrightarrow> Suc (gl_generated s) + (k - nat (i + 1)) = gl_generated s + (k - nat i)"
        using 1(3) by (simp add: nat_add_distrib)
      ultimately show ?thesis
        unfolding s'(6) s1_fields using False by auto
    qed
    show ?thesis
      unfolding unfold using s'(1-5) tr ids s1_fields n by auto
  qed
qed

text \<open>
  C5.  In a registry whose count is within the array's capacity, DestroyGLTextures
  returns, removes nothing and frees nothing: the count and every slot's tag are
  unchanged, slots beyond the count are untouched, and each registered slot \<open>k\<close> now
  holds the name the driver generated on the \<open>k\<close>-th glGenTextures call of this run; the
  only external calls it makes are those glGenTextures calls.
\<close>

theorem DestroyGLTextures_regenerates:
  assumes "m_loadedTextures s \<le> capacity"
  shows "\<exists>s'. DestroyGLTextures w s = Some s' \<and>
           m_loadedTextures s' = m_loadedTextures s \<and>
           (\<forall>k. tag (m_textureIDs s' k) = tag (m_textureIDs s k)) \<and>
           (\<forall>k. int k < m_loadedTextures s \<longrightarrow>
                 ID (m_textureIDs s' k) = gen_name w (gl_generated s + k)) \<and>
           (\<forall>k. m_loadedTextures s \<le> int k \<longrightarrow> m_textureIDs s' k = m_textureIDs s k) \<and>
           trace s' = trace s @ map (\<lambda>k. glGenTextures (gen_name w (gl_generated s + k)))
                                  [0..<nat (m_loadedTextures s)]"
proof -
  from DestroyGLTextures_loop_effect [OF assms, of 0 w]
  obtain s' where s': "DestroyGLTextures_loop w 0 s = Some s'"
      "m_loadedTextures s' = m_loadedTextures s"
      "\<And>k. m_textureIDs s' k =
              (if 0 \<le> int k \<and> int k < m_loadedTextures s
               then (m_textureIDs s k)\<lparr> ID := gen_name w (gl_generated s + (k - nat 0)) \<rparr>
               else m_textureIDs s k)"
      "trace s' = trace s @ map (\<lambda>k. glGenTextures (gen_name w (gl_generated s + k)))
                               [0..<nat (m_loadedTextures s - 0)]"
    by auto
  show ?thesis
    unfolding DestroyGLTextures_def using s' by auto
qed


theorem DestroyGLTextures_regenerates_witness:
  "m_loadedTextures demo_registry \<le> capacity \<and>
   (\<exists>s'. DestroyGLTextures demo_world demo_registry = Some s' \<and>
         m_loadedTextures s' = 3 \<and>
         registered_tags s' = [''wood'', ''wall'', ''wall''] \<and>
         map (\<lambda>k. ID (m_textureIDs s' k)) [0, 1, 2] = [1, 2, 3] \<and>
         trace s' = [glGenTextures 1, glGenTextures 2, glGenTextures 3])"
proof -
  have cap: "m_loadedTextures demo_registry \<le> capacity"
    by (simp add: demo_registry_def capacity_def)
  have three: "[0..<3] = [0, 1, 2]"
    by (simp add: upt_conv_Cons)
  from DestroyGLTextures_regenerates [OF cap, of demo_world]
  obtain s' where s': "DestroyGLTextures demo_world demo_registry = Some s'"
    "m_loadedTextures s' = m_loadedTextures demo_registry"
    "\<forall>k. tag (m_textureIDs s' k) = tag (m_textureIDs demo_registry k)"
    "\<forall>k. int k < m_loadedTextures demo_registry \<longrightarrow>
         ID (m_textureIDs s' k) = gen_name demo_world (gl_generated demo_registry + k)"
    "trace s' = trace demo_registry @
       map (\<lambda>k. glGenTextures (gen_name demo_world (gl_generated demo_registry + k)))
         [0..<nat (m_loadedTextures demo_registry)]"
    by blast
  have r1: "m_loadedTextures s' = 3"
    using s'(2) by (simp add: demo_registry_def)
  have r2: "registered_tags s' = [''wood'', ''wall'', ''wall'']"
    using s'(2,3) by (simp add: registered_tags_def demo_registry_def demo_slots_def three)
  have r3: "map (\<lambda>k. ID (m_textureIDs s' k)) [0, 1, 2] = [1, 2, 3]"
    using s'(4)
    by (simp add: demo_registry_def demo_world_def demo_names_def fresh_scene_def
        SceneManager_new_def)
  have r4: "trace s' = [glGenTextures 1, glGenTextures 2, glGenTextures 3]"
    using s'(5)
    by (simp add: demo_registry_def demo_world_def demo_names_def fresh_scene_def
        SceneManager_new_def three)
  show ?thesis
    by (rule conjI [OF cap], rule exI [of _ s']) (simp only: s'(1) r1 r2 r3 r4 simp_thms)
qed

section \<open>Loading textures\<close>

lemma emits_emits [simp]: "emits b (emits a s) = emits (a @ b) s"
  by (simp add: emits_def)

lemma emits_Nil [simp]: "emits [] s = s"
  by (simp add: emits_def)

lemma emit_emits: "emit c s = emits [c] s"
  by (simp add: emit_def emits_def)

lemma loaded_files_append [simp]: "loaded_files (xs @ ys) = loaded_files xs @ loaded_files ys"
  by (induction xs rule: loaded_files.induct) simp_all

lemma draws_append [simp]: "draws (xs @ ys) = draws xs @ draws ys"
  by (induction xs rule: draws.induct) simp_all

lemma registered_tags_emits [simp]: "registered_tags (emits cs s) = registered_tags s"
  by (simp add: registered_tags_def)

lemma CreateGLTexture_loaded:
  assumes "stbi_load w f = Some (wd, ht, ch)" "ch = 3 \<or> ch = 4" "in_bounds (m_loadedTextures s)"
  shows "\<exists>s' evs. CreateGLTexture w f tg s = Some (True, s') \<and>
           m_loadedTextures s' = m_loadedTextures s + 1 \<and>
           m_textureIDs s' = (m_textureIDs s)
             (nat (m_loadedTextures s) := \<lparr> tag = tg, ID = gen_name w (gl_generated s) \<rparr>) \<and>
           m_pShaderManager s' = m_pShaderManager s \<and>
           m_objectMaterials s' = m_objectMaterials s \<and>
           gl_generated s' = Suc (gl_generated s) \<and>
           trace s' = trace s @ evs \<and> (\<forall>c \<in> set evs. \<not> is_mesh_call c) \<and>
           loaded_files evs = [f] \<and>
           glGenTextures (gen_name w (gl_generated s)) \<in> set evs"
  using assms
  by (auto simp: CreateGLTexture_def register_texture_def gen_texture_def Let_def)

lemma CreateGLTexture_overflow:
  assumes "stbi_load w f = Some (wd, ht, ch)" "ch = 3 \<or> ch = 4" "\<not> in_bounds (m_loadedTextures s)"
  shows "CreateGLTexture w f tg s = None"
  using assms
  by (auto simp: CreateGLTexture_def register_texture_def gen_texture_def Let_def)

lemma CreateGLTexture_failed:
  assumes "\<not> (\<exists>wd ht ch. stbi_load w f = Some (wd, ht, ch) \<and> (ch = 3 \<or> ch = 4))"
  shows "\<exists>s' evs. CreateGLTexture w f tg s = Some (False, s') \<and>
           m_loadedTextures s' = m_loadedTextures s \<and>
           m_textureIDs s' = m_textureIDs s \<and>
           m_pShaderManager s' = m_pShaderManager s \<and>
           m_objectMaterials s' = m_objectMaterials s \<and>
           trace s' = trace s @ evs \<and> (\<forall>c \<in> set evs. \<not> is_mesh_call c) \<and>
           loaded_files evs = [f] \<and> evs \<noteq> [] \<and> is_log (last evs)"
  using assms
  by (auto simp: CreateGLTexture_def register_texture_def gen_texture_def Let_def
      split: option.splits)

lemma registered_tags_register:
  assumes "0 \<le> m_loadedTextures s" "m_loadedTextures s' = m_loadedTextures s + 1"
    "m_textureIDs s' = (m_textureIDs s)(nat (m_loadedTextures s) := \<lparr> tag = tg, ID = h \<rparr>)"
  shows "registered_tags s' = registered_tags s @ [tg]"
proof -
  have "nat (m_loadedTextures s + 1) = Suc (nat (m_loadedTextures s))"
    using assms(1) by simp
  then show ?thesis
    unfolding registered_tags_def assms(2,3) by simp
qed

lemma CreateGLTexture_step:
  assumes "in_bounds (m_loadedTextures s)"
  shows "\<exists>b s' evs. CreateGLTexture w f tg s = Some (b, s') \<and>
           m_pShaderManager s' = m_pShaderManager s \<and>
           m_objectMaterials s' = m_objectMaterials s \<and>
           m_loadedTextures s' = m_loadedTextures s + (if b then 1 else 0) \<and>
           registered_tags s' = registered_tags s @ (if b then [tg] else []) \<and>
           trace s' = trace s @ evs \<and> (\<forall>c \<in> set evs. \<not> is_mesh_call c) \<and>
           loaded_files evs = [f]"
proof (cases "\<exists>wd ht ch. stbi_load w f = Some (wd, ht, ch) \<and> (ch = 3 \<or> ch = 4)")
  case True
  then obtain wd ht ch where l: "stbi_load w f = Some (wd, ht, ch)" "ch = 3 \<or> ch = 4"
    by blast
  from CreateGLTexture_loaded [OF l assms, of tg]
  obtain s' evs where s': "CreateGLTexture w f tg s = Some (True, s')"
    "m_loadedTextures s' = m_loadedTextures s + 1"
    "m_textureIDs s' = (m_textureIDs s)
       (nat (m_loadedTextures s) := \<lparr> tag = tg, ID = gen_name w (gl_generated s) \<rparr>)"
    "m_pShaderManager s' = m_pShaderManager s"
    "m_objectMaterials s' = m_objectMaterials s"
    "trace s' = trace s @ evs" "\<forall>c \<in> set evs. \<not> is_mesh_call c" "loaded_files evs = [f]"
    by blast
  have "registered_tags s' = registered_tags s @ [tg]"
    using assms s'(2,3) by (intro registered_tags_register) (simp_all add: in_bounds_def)
  with s' show ?thesis
    by (intro exI [of _ True] exI [of _ s'] exI [of _ evs]) simp
next
  case False
  from CreateGLTexture_failed [OF False, of tg s]
  obtain s' evs where s': "CreateGLTexture w f tg s = Some (False, s')"
    "m_loadedTextures s' = m_loadedTextures s"
    "m_textureIDs s' = m_textureIDs s"
    "m_pShaderManager s' = m_pShaderManager s"
    "m_objectMaterials s' = m_objectMaterials s"
    "trace s' = trace s @ evs" "\<forall>c \<in> set evs. \<not> is_mesh_call c" "loaded_files evs = [f]"
    by blast
  have "registered_tags s' = registered_tags s"
    using s'(2,3) by (simp add: registered_tags_def)
  with s' show ?thesis
    by (intro exI [of _ False] exI [of _ s'] exI [of _ evs]) simp
qed

lemma load_texture_list_effect:
  "0 \<le> m_loadedTextures s \<Longrightarrow> m_loadedTextures s + int (length fts) \<le> capacity \<Longrightarrow>
   \<exists>s' bs evs. load_texture_list w fts s = Some s' \<and> length bs = length fts \<and>
      m_pShaderManager s' = m_pShaderManager s \<and>
      m_objectMaterials s' = m_objectMaterials s \<and>
      m_loadedTextures s \<le> m_loadedTextures s' \<and>
      m_loadedTextures s' \<le> m_loadedTextures s + int (length fts) \<and>
      registered_tags s' = registered_tags s @ map snd (filter fst (zip bs (map snd fts))) \<and>
      trace s' = trace s @ evs \<and> (\<forall>c \<in> set evs. \<not> is_mesh_call c) \<and>
      loaded_files evs = map fst fts"
proof (induction fts arbitrary: s)
  case Nil
  show ?case
    by (intro exI [of _ s] exI [of _ "[]"]) simp
next
  case (Cons ft fts)
  obtain f tg where ft: "ft = (f, tg)" by (cases ft)
  have ib: "in_bounds (m_loadedTextures s)"
    using Cons.prems by (simp add: in_bounds_def)
  from CreateGLTexture_step [OF ib, of w f tg]
  obtain b s1 evs1 where s1: "CreateGLTexture w f tg s = Some (b, s1)"
    "m_pShaderManager s1 = m_pShaderManager s"
    "m_objectMaterials s1 = m_objectMaterials s"
    "m_loadedTextures s1 = m_loadedTextures s + (if b then 1 else 0)"
    "registered_tags s1 = registered_tags s @ (if b then [tg] else [])"
    "trace s1 = trace s @ evs1" "\<forall>c \<in> set evs1. \<not> is_mesh_call c" "loaded_files evs1 = [f]"
    by blast
  have p1: "0 \<le> m_loadedTextures s1" using Cons.prems s1(4) by simp
  have p2: "m_loadedTextures s1 + int (length fts) \<le> capacity" using Cons.prems s1(4) by simp
  from Cons.IH [OF p1 p2]
  obtain s' bs evs where s': "load_texture_list w fts s1 = Some s'" "length bs = length fts"
    "m_pShaderManager s' = m_pShaderManager s1"
    "m_objectMaterials s' = m_objectMaterials s1"
    "m_loadedTextures s1 \<le> m_loadedTextures s'"
    "m_loadedTextures s' \<le> m_loadedTextures s1 + int (length fts)"
    "registered_tags s' = registered_tags s1 @ map snd (filter fst (zip bs (map snd fts)))"
    "trace s' = trace s1 @ evs" "\<forall>c \<in> set evs. \<not> is_mesh_call c"
    "loaded_files evs = map fst fts"
    by blast
  have cnt: "m_loadedTextures s \<le> m_loadedTextures s'"
    "m_loadedTextures s' \<le> m_loadedTextures s + int (length (ft # fts))"
    using s1(4) s'(5,6) by (simp_all split: if_splits)
  have tags: "registered_tags s' =
      registered_tags s @ map snd (filter fst (zip (b # bs) (map snd (ft # fts))))"
    unfolding s'(7) s1(5) ft by simp
  have tr: "trace s' = trace s @ (evs1 @ evs)" "\<forall>c \<in> set (evs1 @ evs). \<not> is_mesh_call c"
    "loaded_files (evs1 @ evs) = map fst (ft # fts)"
    using s1(6,7,8) s'(8,9,10) unfolding ft by auto
  have run: "load_texture_list w (ft # fts) s = Some s'"
    unfolding ft using s1(1) s'(1) by simp
  have len: "length (b # bs) = length (ft # fts)" using s'(2) by simp
  have fr: "m_pShaderManager s' = m_pShaderManager s" "m_objectMaterials s' = m_objectMaterials s"
    using s1(2,3) s'(3,4) by simp_all
  show ?case
    by (rule exI [of _ s'], rule exI [of _ "b # bs"], rule exI [of _ "evs1 @ evs"])
       (intro conjI run len fr cnt tags tr)
qed

lemma BindGLTextures_loop_effect:
  "m_loadedTextures s \<le> capacity \<Longrightarrow> 0 \<le> i \<Longrightarrow>
   \<exists>evs. BindGLTextures_loop i s = Some (emits evs s) \<and>
         (\<forall>c \<in> set evs. \<not> is_mesh_call c) \<and> loaded_files evs = []"
proof (induction i s rule: BindGLTextures_loop.induct)
  case (1 i s)
  show ?case
  proof (cases "i < m_loadedTextures s")
    case False
    then show ?thesis
      by (subst BindGLTextures_loop.simps) (auto intro: exI [of _ "[]"])
  next
    case True
    have ib: "in_bounds i" using True 1(2,3) by (simp add: in_bounds_def)
    let ?step = "[glActiveTexture i, glBindTexture (ID (m_textureIDs s (nat i)))]"
    from 1(1) [OF True ib] 1(2,3)
    obtain evs where evs: "BindGLTextures_loop (i + 1) (emits ?step s) = Some (emits evs (emits ?step s))"
      "\<forall>c \<in> set evs. \<not> is_mesh_call c" "loaded_files evs = []"
      by auto
    show ?thesis
      using True ib evs
      by (subst BindGLTextures_loop.simps) (auto intro!: exI [of _ "?step @ evs"])
  qed
qed

lemma LoadSceneTextures_as_list:
  "LoadSceneTextures w s = Option.bind (load_texture_list w scene_texture_files s) BindGLTextures"
  by (simp add: LoadSceneTextures_def scene_texture_files_def split: option.splits prod.splits)

lemma LoadSceneTextures_effect:
  assumes "0 \<le> m_loadedTextures s" "m_loadedTextures s + 8 \<le> capacity"
  shows "\<exists>s' bs evs. LoadSceneTextures w s = Some s' \<and> length bs = 8 \<and>
      m_pShaderManager s' = m_pShaderManager s \<and>
      m_objectMaterials s' = m_objectMaterials s \<and>
      m_loadedTextures s \<le> m_loadedTextures s' \<and>
      m_loadedTextures s' \<le> m_loadedTextures s + 8 \<and>
      registered_tags s' =
        registered_tags s @ map snd (filter fst (zip bs (map snd scene_texture_files))) \<and>
      trace s' = trace s @ evs \<and> (\<forall>c \<in> set evs. \<not> is_mesh_call c) \<and>
      loaded_files evs = map fst scene_texture_files"
proof -
  have len: "int (length scene_texture_files) = 8"
    by (simp add: scene_texture_files_def)
  from load_texture_list_effect [of s scene_texture_files w] assms len
  obtain s1 bs evs1 where s1: "load_texture_list w scene_texture_files s = Some s1"
    "length bs = length scene_texture_files"
    "m_pShaderManager s1 = m_pShaderManager s"
    "m_objectMaterials s1 = m_objectMaterials s"
    "m_loadedTextures s \<le> m_loadedTextures s1"
    "m_loadedTextures s1 \<le> m_loadedTextures s + int (length scene_texture_files)"
    "registered_tags s1 =
       registered_tags s @ map snd (filter fst (zip bs (map snd scene_texture_files)))"
    "trace s1 = trace s @ evs1" "\<forall>c \<in> set evs1. \<not> is_mesh_call c"
    "loaded_files evs1 = map fst scene_texture_files"
    by auto
  have cap: "m_loadedTextures s1 \<le> capacity"
    using s1(6) assms(2) len by simp
  from BindGLTextures_loop_effect [OF cap, of 0]
  obtain evs2 where evs2: "BindGLTextures s1 = Some (emits evs2 s1)"
    "\<forall>c \<in> set evs2. \<not> is_mesh_call c" "loaded_files evs2 = []"
    unfolding BindGLTextures_def by auto
  have run: "LoadSceneTextures w s = Some (emits evs2 s1)"
    by (simp add: LoadSceneTextures_as_list s1(1) evs2(1))
  have l8: "length bs = 8" using s1(2) len by simp
  have fr: "m_pShaderManager (emits evs2 s1) = m_pShaderManager s"
    "m_objectMaterials (emits evs2 s1) = m_objectMaterials s"
    "m_loadedTextures s \<le> m_loadedTextures (emits evs2 s1)"
    "m_loadedTextures (emits evs2 s1) \<le> m_loadedTextures s + 8"
    using s1(3-6) len by simp_all
  have tags: "registered_tags (emits evs2 s1) =
      registered_tags s @ map snd (filter fst (zip bs (map snd scene_texture_files)))"
    using s1(7) by simp
  have tr: "trace (emits evs2 s1) = trace s @ (evs1 @ evs2)"
    "\<forall>c \<in> set (evs1 @ evs2). \<not> is_mesh_call c"
    "loaded_files (evs1 @ evs2) = map fst scene_texture_files"
    using s1(8,9,10) evs2(2,3) by auto
  show ?thesis
    by (rule exI [of _ "emits evs2 s1"], rule exI [of _ bs], rule exI [of _ "evs1 @ evs2"])
       (intro conjI run l8 fr tags tr)
qed

lemma distinct_selected_tags:
  assumes "length bs = length fts" "distinct (map snd fts)"
  shows "distinct (map snd (filter fst (zip bs (map snd fts))))"
proof -
  have "distinct (map snd (zip bs (map snd fts)))"
    using assms by (simp add: map_snd_zip)
  then show ?thesis by (rule distinct_map_filter)
qed

lemma registered_tags_empty: "m_loadedTextures s = 0 \<Longrightarrow> registered_tags s = []"
  by (simp add: registered_tags_def)

lemma scene_texture_tags_distinct: "distinct (map snd scene_texture_files)"
  by (simp add: scene_texture_files_def)

lemma FindTextureID_loop_total:
  "m_loadedTextures s \<le> capacity \<Longrightarrow> 0 \<le> index \<Longrightarrow>
   \<exists>r. FindTextureID_loop s tg t index b = Some r"
proof (induction s tg t index b rule: FindTextureID_loop.induct)
  case (1 s tg textureID index bFound)
  show ?case
  proof (cases "index < m_loadedTextures s \<and> bFound = False")
    case False
    then show ?thesis by (subst FindTextureID_loop.simps) auto
  next
    case True
    then have ib: "in_bounds index" using 1(3,4) by (simp add: in_bounds_def)
    show ?thesis
    proof (cases "tag (m_textureIDs s (nat index)) = tg")
      case t: True
      from 1(1) [OF True ib t 1(3,4)] show ?thesis
        using True ib t by (subst FindTextureID_loop.simps) simp
    next
      case f: False
      from 1(2) [OF True ib f 1(3)] 1(4) show ?thesis
        using True ib f by (subst FindTextureID_loop.simps) simp
    qed
  qed
qed

lemma FindTextureSlot_loop_total:
  "m_loadedTextures s \<le> capacity \<Longrightarrow> 0 \<le> index \<Longrightarrow>
   \<exists>r. FindTextureSlot_loop s tg t index b = Some r"
proof (induction s tg t index b rule: FindTextureSlot_loop.induct)
  case (1 s tg textureSlot index bFound)
  show ?case
  proof (cases "index < m_loadedTextures s \<and> bFound = False")
    case False
    then show ?thesis by (subst FindTextureSlot_loop.simps) auto
  next
    case True
    then have ib: "in_bounds index" using 1(3,4) by (simp add: in_bounds_def)
    show ?thesis
    proof (cases "tag (m_textureIDs s (nat index)) = tg")
      case t: True
      from 1(1) [OF True ib t 1(3,4)] show ?thesis
        using True ib t by (subst FindTextureSlot_loop.simps) simp
    next
      case f: False
      from 1(2) [OF True ib f 1(3)] 1(4) show ?thesis
        using True ib f by (subst FindTextureSlot_loop.simps) simp
    qed
  qed
qed

lemma FindTextureSlot_total:
  "m_loadedTextures s \<le> capacity \<Longrightarrow> \<exists>r. FindTextureSlot s tg = Some r"
  unfolding FindTextureSlot_def by (rule FindTextureSlot_loop_total) simp_all

lemma FindTextureID_total:
  "m_loadedTextures s \<le> capacity \<Longrightarrow> \<exists>r. FindTextureID s tg = Some r"
  unfolding FindTextureID_def by (rule FindTextureID_loop_total) simp_all

section \<open>Registering a texture\<close>

text \<open>
  C6.  CreateGLTexture returns \<open>true\<close> exactly when the image loads with 3 or 4 colour
  channels.  In that case (the count being within the array) it adds one entry, the given
  tag with the handle glGenTextures produced during this call, at the slot numbered by
  the old count, and the count grows by one; all other slots are as before.  In every
  other case (the image does not load, or has another channel count) it returns \<open>false\<close>,
  the count and the whole array are unchanged, and the last thing it does is print a
  message.
\<close>

theorem CreateGLTexture_registers_iff_loaded:
  "((\<exists>wd ht ch. stbi_load w f = Some (wd, ht, ch) \<and> (ch = 3 \<or> ch = 4)) \<and>
      in_bounds (m_loadedTextures s) \<longrightarrow>
      (\<exists>s' evs. CreateGLTexture w f tg s = Some (True, s') \<and>
         m_loadedTextures s' = m_loadedTextures s + 1 \<and>
         m_textureIDs s' = (m_textureIDs s)
           (nat (m_loadedTextures s) := \<lparr> tag = tg, ID = gen_name w (gl_generated s) \<rparr>) \<and>
         trace s' = trace s @ evs \<and>
         glGenTextures (gen_name w (gl_generated s)) \<in> set evs)) \<and>
   (\<not> (\<exists>wd ht ch. stbi_load w f = Some (wd, ht, ch) \<and> (ch = 3 \<or> ch = 4)) \<longrightarrow>
      (\<exists>s' evs. CreateGLTexture w f tg s = Some (False, s') \<and>
         m_loadedTextures s' = m_loadedTextures s \<and>
         m_textureIDs s' = m_textureIDs s \<and>
         trace s' = trace s @ evs \<and> evs \<noteq> [] \<and> is_log (last evs)))"
proof (intro conjI impI)
  assume "(\<exists>wd ht ch. stbi_load w f = Some (wd, ht, ch) \<and> (ch = 3 \<or> ch = 4)) \<and>
      in_bounds (m_loadedTextures s)"
  then obtain wd ht ch where l: "stbi_load w f = Some (wd, ht, ch)" "ch = 3 \<or> ch = 4"
    and ib: "in_bounds (m_loadedTextures s)"
    by blast
  from CreateGLTexture_loaded [OF l ib, of tg]
  show "\<exists>s' evs. CreateGLTexture w f tg s = Some (True, s') \<and>
         m_loadedTextures s' = m_loadedTextures s + 1 \<and>
         m_textureIDs s' = (m_textureIDs s)
           (nat (m_loadedTextures s) := \<lparr> tag = tg, ID = gen_name w (gl_generated s) \<rparr>) \<and>
         trace s' = trace s @ evs \<and>
         glGenTextures (gen_name w (gl_generated s)) \<in> set evs"
    by blast
next
  assume "\<not> (\<exists>wd ht ch. stbi_load w f = Some (wd, ht, ch) \<and> (ch = 3 \<or> ch = 4))"
  from CreateGLTexture_failed [OF this, of tg s]
  show "\<exists>s' evs. CreateGLTexture w f tg s = Some (False, s') \<and>
         m_loadedTextures s' = m_loadedTextures s \<and>
         m_textureIDs s' = m_textureIDs s \<and>
         trace s' = trace s @ evs \<and> evs \<noteq> [] \<and> is_log (last evs)"
    by blast
qed

theorem CreateGLTexture_registers_iff_loaded_witness:
  "(\<exists>s' evs. CreateGLTexture demo_world ''textures/wood.jpg'' ''wood'' fresh_scene = Some (True, s') \<and>
       m_loadedTextures s' = 1 \<and>
       m_textureIDs s' = (m_textureIDs fresh_scene)(0 := \<lparr> tag = ''wood'', ID = 1 \<rparr>) \<and>
       trace s' = evs \<and> glGenTextures 1 \<in> set evs) \<and>
   (\<exists>s' evs. CreateGLTexture demo_world ''textures/pot.jpg'' ''pot'' fresh_scene = Some (False, s') \<and>
       m_loadedTextures s' = 0 \<and>
       m_textureIDs s' = m_textureIDs fresh_scene \<and>
       trace s' = evs \<and> evs \<noteq> [] \<and> is_log (last evs))"
proof -
  have wood: "(\<exists>wd ht ch. stbi_load demo_world ''textures/wood.jpg'' = Some (wd, ht, ch) \<and> (ch = 3 \<or> ch = 4)) \<and>
      in_bounds (m_loadedTextures fresh_scene)"
    by (simp add: demo_world_def demo_files_def fresh_scene_def SceneManager_new_def
        in_bounds_def capacity_def)
  have pot: "\<not> (\<exists>wd ht ch. stbi_load demo_world ''textures/pot.jpg'' = Some (wd, ht, ch) \<and> (ch = 3 \<or> ch = 4))"
    by (simp add: demo_world_def demo_files_def)
  have vals: "m_loadedTextures fresh_scene = 0" "gl_generated fresh_scene = 0"
    "trace fresh_scene = []" "gen_name demo_world 0 = 1"
    by (simp_all add: fresh_scene_def SceneManager_new_def demo_world_def demo_names_def)
  from CreateGLTexture_registers_iff_loaded
         [of demo_world "''textures/wood.jpg''" fresh_scene "''wood''"] wood
  have a: "\<exists>s' evs. CreateGLTexture demo_world ''textures/wood.jpg'' ''wood'' fresh_scene = Some (True, s') \<and>
       m_loadedTextures s' = 1 \<and>
       m_textureIDs s' = (m_textureIDs fresh_scene)(0 := \<lparr> tag = ''wood'', ID = 1 \<rparr>) \<and>
       trace s' = evs \<and> glGenTextures 1 \<in> set evs"
    by (simp add: vals)
  from CreateGLTexture_registers_iff_loaded
         [of demo_world "''textures/pot.jpg''" fresh_scene "''pot''"] pot
  have b: "\<exists>s' evs. CreateGLTexture demo_world ''textures/pot.jpg'' ''pot'' fresh_scene = Some (False, s') \<and>
       m_loadedTextures s' = 0 \<and>
       m_textureIDs s' = m_textureIDs fresh_scene \<and>
       trace s' = evs \<and> evs \<noteq> [] \<and> is_log (last evs)"
    by (simp add: vals)
  from a b show ?thesis by (rule conjI)
qed

lemma load_prefix_count:
  assumes "m_loadedTextures s = 0" "k \<le> length scene_texture_files"
  shows "\<exists>s'. load_texture_list w (take k scene_texture_files) s = Some s' \<and>
           0 \<le> m_loadedTextures s' \<and> m_loadedTextures s' \<le> int k \<and>
           distinct (registered_tags s')"
proof -
  have len: "length scene_texture_files = 8" by (simp add: scene_texture_files_def)
  have lk: "length (take k scene_texture_files) = k" using assms(2) by simp
  have p1: "0 \<le> m_loadedTextures s" using assms(1) by simp
  have p2: "m_loadedTextures s + int (length (take k scene_texture_files)) \<le> capacity"
    using assms len by (simp add: capacity_def)
  from load_texture_list_effect [OF p1 p2, of w]
  obtain s' bs where s': "load_texture_list w (take k scene_texture_files) s = Some s'"
    "length bs = length (take k scene_texture_files)"
    "m_loadedTextures s \<le> m_loadedTextures s'"
    "m_loadedTextures s' \<le> m_loadedTextures s + int (length (take k scene_texture_files))"
    "registered_tags s' = registered_tags s @
        map snd (filter fst (zip bs (map snd (take k scene_texture_files))))"
    by blast
  have "distinct (map snd (take k scene_texture_files))"
    using scene_texture_tags_distinct by (simp add: take_map [symmetric] distinct_take)
  from distinct_selected_tags [OF s'(2) this] have "distinct (registered_tags s')"
    unfolding s'(5) registered_tags_empty [OF assms(1)] by simp
  then show ?thesis
    using s'(1,3,4) assms(1) lk by auto
qed

section \<open>The array bound\<close>

text \<open>
  C9.  CreateGLTexture writes at the index given by the current count and does not check
  it: when the image loads with 3 or 4 channels, a count inside the array makes it store
  the entry in that slot, and a count outside the array makes the write undefined.  From
  a state with no textures, the eight calls of LoadSceneTextures are made (one stbi\_load
  per file, in order), after \<open>k\<close> of them the count is between 0 and \<open>k\<close>, the final
  count is at most 8 and so below the capacity of 16, and BindGLTextures, FindTextureID
  and FindTextureSlot then run without an access outside the array.
\<close>

theorem texture_array_indices_in_bounds:
  "(stbi_load w f = Some (wd, ht, ch) \<and> (ch = 3 \<or> ch = 4) \<longrightarrow>
      (in_bounds (m_loadedTextures s) \<longrightarrow>
         (\<exists>s'. CreateGLTexture w f tg s = Some (True, s') \<and>
               m_textureIDs s' = (m_textureIDs s)
                 (nat (m_loadedTextures s) := \<lparr> tag = tg, ID = gen_name w (gl_generated s) \<rparr>))) \<and>
      (\<not> in_bounds (m_loadedTextures s) \<longrightarrow> CreateGLTexture w f tg s = None)) \<and>
   (m_loadedTextures s0 = 0 \<longrightarrow>
      (\<forall>k \<le> length scene_texture_files.
         \<exists>s'. load_texture_list w (take k scene_texture_files) s0 = Some s' \<and>
              0 \<le> m_loadedTextures s' \<and> m_loadedTextures s' \<le> int k) \<and>
      (\<exists>s' evs. LoadSceneTextures w s0 = Some s' \<and>
         trace s' = trace s0 @ evs \<and>
         loaded_files evs = map fst scene_texture_files \<and> length (loaded_files evs) = 8 \<and>
         0 \<le> m_loadedTextures s' \<and> m_loadedTextures s' \<le> 8 \<and>
         m_loadedTextures s' < capacity \<and>
         BindGLTextures s' \<noteq> None \<and>
         (\<forall>q. FindTextureID s' q \<noteq> None \<and> FindTextureSlot s' q \<noteq> None)))"
proof (intro conjI impI allI)
  assume "stbi_load w f = Some (wd, ht, ch) \<and> (ch = 3 \<or> ch = 4)"
    and "in_bounds (m_loadedTextures s)"
  then show "\<exists>s'. CreateGLTexture w f tg s = Some (True, s') \<and>
               m_textureIDs s' = (m_textureIDs s)
                 (nat (m_loadedTextures s) := \<lparr> tag = tg, ID = gen_name w (gl_generated s) \<rparr>)"
    using CreateGLTexture_loaded [of w f wd ht ch s tg] by blast
next
  assume "stbi_load w f = Some (wd, ht, ch) \<and> (ch = 3 \<or> ch = 4)"
    and "\<not> in_bounds (m_loadedTextures s)"
  then show "CreateGLTexture w f tg s = None"
    using CreateGLTexture_overflow [of w f wd ht ch s tg] by blast
next
  fix k
  assume "m_loadedTextures s0 = 0" "k \<le> length scene_texture_files"
  from load_prefix_count [OF this, of w]
  show "\<exists>s'. load_texture_list w (take k scene_texture_files) s0 = Some s' \<and>
              0 \<le> m_loadedTextures s' \<and> m_loadedTextures s' \<le> int k"
    by blast
next
  assume z: "m_loadedTextures s0 = 0"
  have p1: "0 \<le> m_loadedTextures s0" and p2: "m_loadedTextures s0 + 8 \<le> capacity"
    using z by (simp_all add: capacity_def)
  from LoadSceneTextures_effect [OF p1 p2, of w]
  obtain s' evs where s': "LoadSceneTextures w s0 = Some s'"
    "m_loadedTextures s0 \<le> m_loadedTextures s'"
    "m_loadedTextures s' \<le> m_loadedTextures s0 + 8"
    "trace s' = trace s0 @ evs" "loaded_files evs = map fst scene_texture_files"
    by blast
  have cap: "m_loadedTextures s' \<le> capacity" "m_loadedTextures s' < capacity"
    using s'(3) z by (simp_all add: capacity_def)
  have l8: "length (loaded_files evs) = 8"
    unfolding s'(5) by (simp add: scene_texture_files_def)
  have bind: "BindGLTextures s' \<noteq> None"
    using BindGLTextures_loop_effect [OF cap(1), of 0] unfolding BindGLTextures_def by auto
  have find: "\<forall>q. FindTextureID s' q \<noteq> None \<and> FindTextureSlot s' q \<noteq> None"
    using FindTextureID_total [OF cap(1)] FindTextureSlot_total [OF cap(1)] by auto
  have cnt: "0 \<le> m_loadedTextures s'" "m_loadedTextures s' \<le> 8"
    using s'(2,3) z by simp_all
  show "\<exists>s' evs. LoadSceneTextures w s0 = Some s' \<and>
         trace s' = trace s0 @ evs \<and>
         loaded_files evs = map fst scene_texture_files \<and> length (loaded_files evs) = 8 \<and>
         0 \<le> m_loadedTextures s' \<and> m_loadedTextures s' \<le> 8 \<and>
         m_loadedTextures s' < capacity \<and>
         BindGLTextures s' \<noteq> None \<and>
         (\<forall>q. FindTextureID s' q \<noteq> None \<and> FindTextureSlot s' q \<noteq> None)"
    by (rule exI [of _ s'], rule exI [of _ evs])
       (intro conjI s'(1,4,5) l8 cnt cap(2) bind find)
qed

lemma LoadSceneMaterials_fields [simp]:
  "m_pShaderManager (LoadSceneMaterials w s) = m_pShaderManager s"
  "m_loadedTextures (LoadSceneMaterials w s) = m_loadedTextures s"
  "m_textureIDs (LoadSceneMaterials w s) = m_textureIDs s"
  "gl_generated (LoadSceneMaterials w s) = gl_generated s"
  "trace (LoadSceneMaterials w s) = trace s"
  "map mtag (m_objectMaterials (LoadSceneMaterials w s)) =
     map mtag (m_objectMaterials s) @ [''marble'', ''gold'', ''granite'', ''wall'', ''lamp'']"
  by (simp_all add: LoadSceneMaterials_def Let_def)

lemma registered_tags_LoadSceneMaterials [simp]:
  "registered_tags (LoadSceneMaterials w s) = registered_tags s"
  by (simp add: registered_tags_def)

lemma PrepareScene_after_textures:
  "LoadSceneTextures w s = Some s1 \<Longrightarrow>
   PrepareScene w s =
     Some (emits [LoadMesh Plane, LoadMesh Box, LoadMesh Cone, LoadMesh Prism, LoadMesh Pyramid3,
                  LoadMesh Sphere, LoadMesh Torus, LoadMesh TaperedCylinder, LoadMesh Cylinder]
             (LoadSceneMaterials w s1))"
  by (simp add: PrepareScene_def PrepareScene_steps_def emit_emits Let_def)


theorem texture_array_indices_in_bounds_witness:
  "(\<exists>s'. CreateGLTexture demo_world ''textures/wood.jpg'' ''wood'' fresh_scene = Some (True, s') \<and>
         m_textureIDs s' = (m_textureIDs fresh_scene)(0 := \<lparr> tag = ''wood'', ID = 1 \<rparr>)) \<and>
   CreateGLTexture demo_world ''textures/wood.jpg'' ''wood'' full_registry = None \<and>
   (\<exists>s'. load_texture_list demo_world (take 3 scene_texture_files) fresh_scene = Some s' \<and>
         0 \<le> m_loadedTextures s' \<and> m_loadedTextures s' \<le> 3) \<and>
   (\<exists>s' evs. LoadSceneTextures demo_world fresh_scene = Some s' \<and>
         trace s' = evs \<and> length (loaded_files evs) = 8 \<and>
         m_loadedTextures s' \<le> 8 \<and> m_loadedTextures s' < capacity \<and>
         BindGLTextures s' \<noteq> None \<and>
         FindTextureID s' ''leaf'' \<noteq> None \<and> FindTextureSlot s' ''leaf'' \<noteq> None)"
proof -
  have wood: "stbi_load demo_world ''textures/wood.jpg'' = Some (512, 512, 3) \<and> ((3::int) = 3 \<or> (3::int) = 4)"
    by (simp add: demo_world_def demo_files_def)
  have fresh: "in_bounds (m_loadedTextures fresh_scene)" "m_loadedTextures fresh_scene = 0"
    "gl_generated fresh_scene = 0" "trace fresh_scene = []" "gen_name demo_world 0 = 1"
    by (simp_all add: fresh_scene_def SceneManager_new_def in_bounds_def capacity_def
        demo_world_def demo_names_def)
  have full: "\<not> in_bounds (m_loadedTextures full_registry)"
    by (simp add: full_registry_def in_bounds_def capacity_def)
  have three: "(3::nat) \<le> length scene_texture_files"
    by (simp add: scene_texture_files_def)
  note a = texture_array_indices_in_bounds
             [of demo_world "''textures/wood.jpg''" 512 512 3 fresh_scene "''wood''" fresh_scene]
  note b = texture_array_indices_in_bounds
             [of demo_world "''textures/wood.jpg''" 512 512 3 full_registry "''wood''" fresh_scene]
  have c1: "\<exists>s'. CreateGLTexture demo_world ''textures/wood.jpg'' ''wood'' fresh_scene = Some (True, s') \<and>
         m_textureIDs s' = (m_textureIDs fresh_scene)(0 := \<lparr> tag = ''wood'', ID = 1 \<rparr>)"
    using a wood fresh by simp
  have c2: "CreateGLTexture demo_world ''textures/wood.jpg'' ''wood'' full_registry = None"
    using b wood full by simp
  have c3: "\<exists>s'. load_texture_list demo_world (take 3 scene_texture_files) fresh_scene = Some s' \<and>
         0 \<le> m_loadedTextures s' \<and> m_loadedTextures s' \<le> 3"
    using a fresh(2) three by fastforce
  have c4: "\<exists>s' evs. LoadSceneTextures demo_world fresh_scene = Some s' \<and>
         trace s' = evs \<and> length (loaded_files evs) = 8 \<and>
         m_loadedTextures s' \<le> 8 \<and> m_loadedTextures s' < capacity \<and>
         BindGLTextures s' \<noteq> None \<and>
         FindTextureID s' ''leaf'' \<noteq> None \<and> FindTextureSlot s' ''leaf'' \<noteq> None"
    using a fresh(2,4) by fastforce
  show ?thesis by (intro conjI c1 c2 c3 c4)
qed

section \<open>PrepareScene\<close>

lemma PrepareScene_steps_after_textures:
  "LoadSceneTextures w s = Some s1 \<Longrightarrow>
   PrepareScene_steps w s =
     Some (s1 # LoadSceneMaterials w s1 #
           map (\<lambda>n. emits (take n [LoadMesh Plane, LoadMesh Box, LoadMesh Cone, LoadMesh Prism,
                                    LoadMesh Pyramid3, LoadMesh Sphere, LoadMesh Torus,
                                    LoadMesh TaperedCylinder, LoadMesh Cylinder])
                        (LoadSceneMaterials w s1))
               [1, 2, 3, 4, 5, 6, 7, 8, 9])"
  by (simp add: PrepareScene_steps_def emit_emits Let_def)

text \<open>
  C7.  From a state with room for eight more textures, PrepareScene runs its eleven
  statements in this order.  First LoadSceneTextures: eight stbi\_load calls, no call
  into the mesh library, the material table still as it was.  Second LoadSceneMaterials,
  on the state the textures left: the table grows by the five presets while the trace is
  still the one the textures left, so no mesh has been loaded yet.  Then the nine mesh
  loads, each once, in the order plane, box, cone, prism, pyramid, sphere, torus, tapered
  cylinder, cylinder, each on the state of the one before.  PrepareScene returns the
  last of these states, and nothing is drawn.
\<close>

theorem PrepareScene_load_order:
  assumes "0 \<le> m_loadedTextures s" "m_loadedTextures s + 8 \<le> capacity"
  shows "\<exists>s1 tex.
      LoadSceneTextures w s = Some s1 \<and>
      trace s1 = trace s @ tex \<and> (\<forall>c \<in> set tex. \<not> is_mesh_call c) \<and>
      loaded_files tex = map fst scene_texture_files \<and>
      m_objectMaterials s1 = m_objectMaterials s \<and>
      PrepareScene_steps w s =
        Some (s1 # LoadSceneMaterials w s1 #
              map (\<lambda>n. emits (take n [LoadMesh Plane, LoadMesh Box, LoadMesh Cone, LoadMesh Prism,
                                       LoadMesh Pyramid3, LoadMesh Sphere, LoadMesh Torus,
                                       LoadMesh TaperedCylinder, LoadMesh Cylinder])
                           (LoadSceneMaterials w s1))
                  [1, 2, 3, 4, 5, 6, 7, 8, 9]) \<and>
      PrepareScene w s =
        Some (emits [LoadMesh Plane, LoadMesh Box, LoadMesh Cone, LoadMesh Prism, LoadMesh Pyramid3,
                     LoadMesh Sphere, LoadMesh Torus, LoadMesh TaperedCylinder, LoadMesh Cylinder]
                (LoadSceneMaterials w s1)) \<and>
      trace (LoadSceneMaterials w s1) = trace s1 \<and>
      m_objectMaterials (LoadSceneMaterials w s1) \<noteq> m_objectMaterials s1 \<and>
      map mtag (m_objectMaterials (LoadSceneMaterials w s1)) =
        map mtag (m_objectMaterials s) @ [''marble'', ''gold'', ''granite'', ''wall'', ''lamp''] \<and>
      (\<forall>s'. PrepareScene w s = Some s' \<longrightarrow>
         trace s' = trace s @ tex @
           [LoadMesh Plane, LoadMesh Box, LoadMesh Cone, LoadMesh Prism, LoadMesh Pyramid3,
            LoadMesh Sphere, LoadMesh Torus, LoadMesh TaperedCylinder, LoadMesh Cylinder] \<and>
         draws (tex @
           [LoadMesh Plane, LoadMesh Box, LoadMesh Cone, LoadMesh Prism, LoadMesh Pyramid3,
            LoadMesh Sphere, LoadMesh Torus, LoadMesh TaperedCylinder, LoadMesh Cylinder]) = [])"
proof -
  from LoadSceneTextures_effect [OF assms, of w]
  obtain s1 tex where s1: "LoadSceneTextures w s = Some s1"
    "m_objectMaterials s1 = m_objectMaterials s"
    "trace s1 = trace s @ tex" "\<forall>c \<in> set tex. \<not> is_mesh_call c"
    "loaded_files tex = map fst scene_texture_files"
    by blast
  note steps = PrepareScene_steps_after_textures [OF s1(1)]
  note prep = PrepareScene_after_textures [OF s1(1)]
  have mats: "map mtag (m_objectMaterials (LoadSceneMaterials w s1)) =
        map mtag (m_objectMaterials s) @ [''marble'', ''gold'', ''granite'', ''wall'', ''lamp'']"
    by (simp add: s1(2))
  have grown: "m_objectMaterials (LoadSceneMaterials w s1) \<noteq> m_objectMaterials s1"
  proof
    assume "m_objectMaterials (LoadSceneMaterials w s1) = m_objectMaterials s1"
    then have "length (map mtag (m_objectMaterials (LoadSceneMaterials w s1))) =
        length (map mtag (m_objectMaterials s))"
      using s1(2) by simp
    then show False unfolding mats by simp
  qed
  have nodraw: "draws tex = []"
    using s1(4) by (induction tex rule: draws.induct) simp_all
  have fin: "\<forall>s'. PrepareScene w s = Some s' \<longrightarrow>
         trace s' = trace s @ tex @
           [LoadMesh Plane, LoadMesh Box, LoadMesh Cone, LoadMesh Prism, LoadMesh Pyramid3,
            LoadMesh Sphere, LoadMesh Torus, LoadMesh TaperedCylinder, LoadMesh Cylinder] \<and>
         draws (tex @
           [LoadMesh Plane, LoadMesh Box, LoadMesh Cone, LoadMesh Prism, LoadMesh Pyramid3,
            LoadMesh Sphere, LoadMesh Torus, LoadMesh TaperedCylinder, LoadMesh Cylinder]) = []"
    unfolding prep using s1(3) nodraw by auto
  have tm: "trace (LoadSceneMaterials w s1) = trace s1" by simp
  show ?thesis
    by (rule exI [of _ s1], rule exI [of _ tex])
       (intro conjI s1(1,3,4,5,2) steps prep tm grown mats fin)
qed

theorem PrepareScene_load_order_witness:
  "0 \<le> m_loadedTextures fresh_scene \<and> m_loadedTextures fresh_scene + 8 \<le> capacity \<and>
   (\<exists>s1 tex s'.
      LoadSceneTextures demo_world fresh_scene = Some s1 \<and> trace s1 = tex \<and>
      (\<forall>c \<in> set tex. \<not> is_mesh_call c) \<and>
      m_objectMaterials s1 = [] \<and>
      PrepareScene_steps demo_world fresh_scene =
        Some (s1 # LoadSceneMaterials demo_world s1 #
              map (\<lambda>n. emits (take n [LoadMesh Plane, LoadMesh Box, LoadMesh Cone, LoadMesh Prism,
                                       LoadMesh Pyramid3, LoadMesh Sphere, LoadMesh Torus,
                                       LoadMesh TaperedCylinder, LoadMesh Cylinder])
                           (LoadSceneMaterials demo_world s1))
                  [1, 2, 3, 4, 5, 6, 7, 8, 9]) \<and>
      trace (LoadSceneMaterials demo_world s1) = tex \<and>
      PrepareScene demo_world fresh_scene = Some s' \<and>
      trace s' = tex @
           [LoadMesh Plane, LoadMesh Box, LoadMesh Cone, LoadMesh Prism, LoadMesh Pyramid3,
            LoadMesh Sphere, LoadMesh Torus, LoadMesh TaperedCylinder, LoadMesh Cylinder] \<and>
      map mtag (m_objectMaterials s') = [''marble'', ''gold'', ''granite'', ''wall'', ''lamp''])"
proof -
  have h: "0 \<le> m_loadedTextures fresh_scene" "m_loadedTextures fresh_scene + 8 \<le> capacity"
    by (simp_all add: fresh_scene_def SceneManager_new_def capacity_def)
  have e: "trace fresh_scene = []" "m_objectMaterials fresh_scene = []"
    by (simp_all add: fresh_scene_def SceneManager_new_def)
  from PrepareScene_load_order [OF h, of demo_world]
  obtain s1 tex where s1: "LoadSceneTextures demo_world fresh_scene = Some s1"
    "trace s1 = trace fresh_scene @ tex" "\<forall>c \<in> set tex. \<not> is_mesh_call c"
    "m_objectMaterials s1 = m_objectMaterials fresh_scene"
    "PrepareScene_steps demo_world fresh_scene =
        Some (s1 # LoadSceneMaterials demo_world s1 #
              map (\<lambda>n. emits (take n [LoadMesh Plane, LoadMesh Box, LoadMesh Cone, LoadMesh Prism,
                                       LoadMesh Pyramid3, LoadMesh Sphere, LoadMesh Torus,
                                       LoadMesh TaperedCylinder, LoadMesh Cylinder])
                           (LoadSceneMaterials demo_world s1))
                  [1, 2, 3, 4, 5, 6, 7, 8, 9])"
    "PrepareScene demo_world fresh_scene =
        Some (emits [LoadMesh Plane, LoadMesh Box, LoadMesh Cone, LoadMesh Prism, LoadMesh Pyramid3,
                     LoadMesh Sphere, LoadMesh Torus, LoadMesh TaperedCylinder, LoadMesh Cylinder]
                (LoadSceneMaterials demo_world s1))"
    "map mtag (m_objectMaterials (LoadSceneMaterials demo_world s1)) =
        map mtag (m_objectMaterials fresh_scene) @ [''marble'', ''gold'', ''granite'', ''wall'', ''lamp'']"
    by blast
  let ?s' = "emits [LoadMesh Plane, LoadMesh Box, LoadMesh Cone, LoadMesh Prism, LoadMesh Pyramid3,
                     LoadMesh Sphere, LoadMesh Torus, LoadMesh TaperedCylinder, LoadMesh Cylinder]
                (LoadSceneMaterials demo_world s1)"
  have t1: "trace s1 = tex" using s1(2) e by simp
  have m1: "m_objectMaterials s1 = []" using s1(4) e by simp
  have t1': "trace (LoadSceneMaterials demo_world s1) = tex" using t1 by simp
  have t2: "trace ?s' = tex @
           [LoadMesh Plane, LoadMesh Box, LoadMesh Cone, LoadMesh Prism, LoadMesh Pyramid3,
            LoadMesh Sphere, LoadMesh Torus, LoadMesh TaperedCylinder, LoadMesh Cylinder]"
    using t1 by simp
  have t3: "map mtag (m_objectMaterials ?s') = [''marble'', ''gold'', ''granite'', ''wall'', ''lamp'']"
    using s1(7) e by simp
  show ?thesis
    by (intro conjI h, rule exI [of _ s1], rule exI [of _ tex], rule exI [of _ ?s'])
       (intro conjI s1(1,3,5,6) t1 m1 t1' t2 t3)
qed

section \<open>Rendering with a shader manager\<close>

lemma FindTextureSlot_loop_cong:
  "m_loadedTextures s' = m_loadedTextures s \<Longrightarrow> m_textureIDs s' = m_textureIDs s \<Longrightarrow>
   FindTextureSlot_loop s' tg t i b = FindTextureSlot_loop s tg t i b"
proof (induction s tg t i b rule: FindTextureSlot_loop.induct)
  case (1 s tg textureSlot index bFound)
  show ?case
    apply (subst FindTextureSlot_loop.simps [of s'])
    apply (subst FindTextureSlot_loop.simps [of s])
    using 1 by auto
qed

lemma FindTextureSlot_emits [simp]: "FindTextureSlot (emits cs s) tg = FindTextureSlot s tg"
  unfolding FindTextureSlot_def by (rule FindTextureSlot_loop_cong) simp_all

lemma FindTextureSlot_emit [simp]: "FindTextureSlot (emit c s) tg = FindTextureSlot s tg"
  unfolding FindTextureSlot_def by (rule FindTextureSlot_loop_cong) simp_all

lemma SetShaderTexture_shader:
  assumes "m_pShaderManager s" "m_loadedTextures s \<le> capacity"
  shows "SetShaderTexture tg s =
           Some (emits [setIntValue ''bUseTexture'' 1,
                        setSampler2DValue ''objectTexture'' (the (FindTextureSlot s tg))] s)"
proof -
  from FindTextureSlot_total [OF assms(2)] obtain r where "FindTextureSlot s tg = Some r"
    by blast
  then show ?thesis
    using assms(1) by (simp add: SetShaderTexture_def emit_emits)
qed

lemma SetShaderTexture_null: "\<not> m_pShaderManager s \<Longrightarrow> SetShaderTexture tg s = Some s"
  by (simp add: SetShaderTexture_def)

lemma SetShaderMaterial_shader:
  "m_pShaderManager s \<Longrightarrow>
   SetShaderMaterial w tg s = Some (emits (SetShaderMaterial_calls w (m_objectMaterials s) tg) s)"
  by (simp add: SetShaderMaterial_def SetShaderMaterial_calls_def FindMaterial_def
      shader_call_def material_calls_def)

lemma SetTransformations_shader:
  "m_pShaderManager s \<Longrightarrow>
   SetTransformations w sc rx ry rz pos s =
     emits [setMat4Value ''model'' (modelView w sc rx ry rz pos)] s"
  by (simp add: SetTransformations_def emit_emits)

lemma SetShaderColor_shader:
  "m_pShaderManager s \<Longrightarrow>
   SetShaderColor r g b a s =
     emits [setIntValue ''bUseTexture'' 0, setVec4Value ''objectColor'' (r, g, b, a)] s"
  by (simp add: SetShaderColor_def emit_emits)

lemma SetTextureUVScale_shader:
  "m_pShaderManager s \<Longrightarrow> SetTextureUVScale u v s = emits [setVec2Value ''UVscale'' (u, v)] s"
  by (simp add: SetTextureUVScale_def emit_emits)

lemma SetupSceneLights_shader:
  "m_pShaderManager s \<Longrightarrow> SetupSceneLights w s = emits (SetupSceneLights_calls w) s"
  by (simp add: SetupSceneLights_def)

lemma shader_call_shader: "m_pShaderManager s \<Longrightarrow> shader_call cs s = Some (emits cs s)"
  by (simp add: shader_call_def)

lemma RenderScene_leaves_shader:
  "m_pShaderManager s \<Longrightarrow>
   RenderScene_leaves w n i s = emits (concat (map (leaf_calls w n) [i..n - 1])) s"
proof (induction w n i s rule: RenderScene_leaves.induct)
  case (1 w leafCount i s)
  show ?case
  proof (cases "i < leafCount")
    case False
    then show ?thesis by (subst RenderScene_leaves.simps) simp
  next
    case True
    have up: "[i..leafCount - 1] = i # [i + 1..leafCount - 1]"
      using True by (simp add: upto_rec1)
    let ?s1 = "emit (DrawMesh TaperedCylinder)
        (SetTransformations w (leaf_scale w i) (leaf_xTilt w i)
           (fmul w (fint w i) (fdiv w (flit w 360) (fint w leafCount)))
           (leaf_zLean w i) (vec3 w 2 (13/10) 0) s)"
    have s1: "?s1 = emits (leaf_calls w leafCount i) s"
      using 1(2) by (simp add: SetTransformations_shader emit_emits leaf_calls_def)
    have IH: "RenderScene_leaves w leafCount (i + 1) ?s1 =
        emits (concat (map (leaf_calls w leafCount) [i + 1..leafCount - 1])) ?s1"
      by (rule 1(1) [OF True refl refl refl refl refl refl refl refl,
            unfolded leaf_scale_def [symmetric] leaf_xTilt_def [symmetric] leaf_zLean_def [symmetric]])
         (simp add: 1(2) SetTransformations_shader)
    have "RenderScene_leaves w leafCount i s = RenderScene_leaves w leafCount (i + 1) ?s1"
      using True
      by (subst RenderScene_leaves.simps)
         (simp add: Let_def leaf_scale_def leaf_xTilt_def leaf_zLean_def)
    also note IH
    also have "emits (concat (map (leaf_calls w leafCount) [i + 1..leafCount - 1])) ?s1 =
        emits (concat (map (leaf_calls w leafCount) [i..leafCount - 1])) s"
      unfolding s1 up by simp
    finally show ?thesis .
  qed
qed


lemma filter_SetShaderMaterial_calls [simp]:
  "filter is_render_call (SetShaderMaterial_calls w mats tg) = []"
  "draws (SetShaderMaterial_calls w mats tg) = []"
  by (simp_all add: SetShaderMaterial_calls_def material_calls_def)

lemma upto_0_9: "[0..9::int] = [0, 1, 2, 3, 4, 5, 6, 7, 8, 9]"
  by (simp add: upto_rec1)

lemma RenderScene_shader:
  assumes "m_pShaderManager s" "m_loadedTextures s \<le> capacity"
  shows "\<exists>rest. RenderScene w s = Some (emits (SetupSceneLights_calls w @ rest) s) \<and>
           filter is_render_call rest =
             concat (map object_calls (scene_objects w)) @
             [setIntValue ''bUseTexture'' 1, setIntValue ''bUseTexture'' 1] @
             concat (map (leaf_calls w 10) [0..9])"
  apply (rule exI)
  apply (rule conjI)
   apply (simp add: RenderScene_def Let_def assms SetupSceneLights_shader SetTransformations_shader
      SetShaderTexture_shader SetShaderMaterial_shader SetShaderColor_shader
      SetTextureUVScale_shader shader_call_shader RenderScene_leaves_shader emit_emits)
  apply (simp add: scene_objects_def leaf_calls_def upto_0_9)
  done

lemma draws_filter_render [simp]: "draws (filter is_render_call cs) = draws cs"
  by (induction cs rule: draws.induct) simp_all

lemma draws_SetupSceneLights_calls [simp]: "draws (SetupSceneLights_calls w) = []"
  by (simp add: SetupSceneLights_calls_def)

lemma RenderScene_null: "\<not> m_pShaderManager s \<Longrightarrow> RenderScene w s = None"
  by (simp add: RenderScene_def Let_def SetupSceneLights_def SetTransformations_def
      SetShaderTexture_def shader_call_def)

lemma RenderScene_draws:
  assumes "m_pShaderManager s" "m_loadedTextures s \<le> capacity"
  shows "\<exists>rest. RenderScene w s = Some (emits (SetupSceneLights_calls w @ rest) s) \<and>
           draws rest = [Plane, Plane, Cylinder, Cylinder, TaperedCylinder, Sphere, Cylinder,
                         Cylinder, Cylinder, Sphere] @ replicate 10 TaperedCylinder \<and>
           filter is_render_call rest =
             concat (map object_calls (scene_objects w)) @
             [setIntValue ''bUseTexture'' 1, setIntValue ''bUseTexture'' 1] @
             concat (map (leaf_calls w 10) [0..9])"
proof -
  from RenderScene_shader [OF assms, of w]
  obtain rest where rest: "RenderScene w s = Some (emits (SetupSceneLights_calls w @ rest) s)"
    "filter is_render_call rest =
       concat (map object_calls (scene_objects w)) @
       [setIntValue ''bUseTexture'' 1, setIntValue ''bUseTexture'' 1] @
       concat (map (leaf_calls w 10) [0..9])"
    by blast
  have "draws rest = draws (filter is_render_call rest)" by simp
  also have "\<dots> = [Plane, Plane, Cylinder, Cylinder, TaperedCylinder, Sphere, Cylinder,
                         Cylinder, Cylinder, Sphere] @ replicate 10 TaperedCylinder"
    unfolding rest(2)
    by (simp add: scene_objects_def leaf_calls_def upto_0_9 numeral_eq_Suc)
  finally show ?thesis using rest by blast
qed

section \<open>RenderScene\<close>

lemma draws_state_calls [simp]:
  "draws (color_calls c) = []" "draws (texture_calls slot) = []"
  by (simp_all add: color_calls_def texture_calls_def)

lemma length_SetShaderMaterial_calls:
  "mats \<noteq> [] \<Longrightarrow> length (SetShaderMaterial_calls w mats tg) = 5"
  by (simp add: SetShaderMaterial_calls_def material_calls_def)

lemma RenderScene_trace:
  assumes "m_pShaderManager s" "m_loadedTextures s \<le> capacity"
  shows "\<exists>wall_slot wood_slot leaf_slot.
           FindTextureSlot s ''wall'' = Some wall_slot \<and>
           FindTextureSlot s ''wood'' = Some wood_slot \<and>
           FindTextureSlot s ''leaf'' = Some leaf_slot \<and>
           RenderScene w s =
             Some (emits (SetupSceneLights_calls w @
                          concat (scene_segments w (m_objectMaterials s) wall_slot wood_slot) @
                          [setIntValue ''bUseTexture'' 1] @ texture_calls leaf_slot @
                          concat (map (leaf_calls w 10) [0..9])) s)"
proof -
  from FindTextureSlot_total [OF assms(2)]
  obtain wall_slot wood_slot leaf_slot where slots:
    "FindTextureSlot s ''wall'' = Some wall_slot"
    "FindTextureSlot s ''wood'' = Some wood_slot"
    "FindTextureSlot s ''leaf'' = Some leaf_slot"
    by blast
  have "RenderScene w s =
             Some (emits (SetupSceneLights_calls w @
                          concat (scene_segments w (m_objectMaterials s) wall_slot wood_slot) @
                          [setIntValue ''bUseTexture'' 1] @ texture_calls leaf_slot @
                          concat (map (leaf_calls w 10) [0..9])) s)"
    by (simp add: RenderScene_def Let_def assms slots SetupSceneLights_shader
        SetTransformations_shader SetShaderTexture_shader SetShaderMaterial_shader
        SetShaderColor_shader SetTextureUVScale_shader shader_call_shader
        RenderScene_leaves_shader emit_emits scene_segments_def color_calls_def
        texture_calls_def)
  with slots show ?thesis by blast
qed

lemma scene_segments_render_calls:
  "filter is_render_call
     (concat (scene_segments w mats wall_slot wood_slot) @
      [setIntValue ''bUseTexture'' 1] @ texture_calls leaf_slot @
      concat (map (leaf_calls w 10) [0..9])) =
   concat (map object_calls (scene_objects w)) @
   [setIntValue ''bUseTexture'' 1, setIntValue ''bUseTexture'' 1] @
   concat (map (leaf_calls w 10) [0..9])"
  by (simp add: scene_segments_def scene_objects_def color_calls_def texture_calls_def
      leaf_calls_def upto_0_9)

lemma scene_segments_draws:
  "draws
     (concat (scene_segments w mats wall_slot wood_slot) @
      [setIntValue ''bUseTexture'' 1] @ texture_calls leaf_slot @
      concat (map (leaf_calls w 10) [0..9])) =
   [Plane, Plane, Cylinder, Cylinder, TaperedCylinder, Sphere, Cylinder, Cylinder, Cylinder,
    Sphere] @ replicate 10 TaperedCylinder"
  by (simp add: scene_segments_def leaf_calls_def upto_0_9 numeral_eq_Suc)

lemma scene_segments_shape:
  "\<forall>seg \<in> set (scene_segments w mats wall_slot wood_slot).
     (\<exists>mv. hd seg = setMat4Value ''model'' mv) \<and>
     (\<exists>k. last seg = DrawMesh k \<and> draws seg = [k]) \<and>
     (mats \<noteq> [] \<longrightarrow> 2 < length seg)"
  by (simp add: scene_segments_def color_calls_def texture_calls_def
      length_SetShaderMaterial_calls)

lemma scene_table_material_uploads:
  assumes "m_objectMaterials s0 = []"
  shows
    "SetShaderMaterial_calls w (m_objectMaterials (LoadSceneMaterials w s0)) ''marble'' =
       [setVec3Value ''material.ambientColor'' (vec3 w (2/10) (2/10) (2/10)),
        setFloatValue ''material.ambientStrength'' (flit w (4/10)),
        setVec3Value ''material.diffuseColor'' (vec3 w (9/10) (9/10) (9/10)),
        setVec3Value ''material.specularColor'' (vec3 w (3/10) (3/10) (3/10)),
        setFloatValue ''material.shininess'' (flit w 16)]"
    "SetShaderMaterial_calls w (m_objectMaterials (LoadSceneMaterials w s0)) ''gold'' =
       [setVec3Value ''material.ambientColor'' (vec3 w (25/100) (20/100) (7/100)),
        setFloatValue ''material.ambientStrength'' (flit w (3/10)),
        setVec3Value ''material.diffuseColor'' (vec3 w (8/10) (65/100) (25/100)),
        setVec3Value ''material.specularColor'' (vec3 w (65/100) (55/100) (35/100)),
        setFloatValue ''material.shininess'' (flit w (512/10))]"
    "SetShaderMaterial_calls w (m_objectMaterials (LoadSceneMaterials w s0)) ''granite'' =
       [setVec3Value ''material.ambientColor'' (vec3 w (2/10) (2/10) (2/10)),
        setFloatValue ''material.ambientStrength'' (flit w (35/100)),
        setVec3Value ''material.diffuseColor'' (vec3 w (6/10) (6/10) (6/10)),
        setVec3Value ''material.specularColor'' (vec3 w (2/10) (2/10) (2/10)),
        setFloatValue ''material.shininess'' (flit w 8)]"
    "SetShaderMaterial_calls w (m_objectMaterials (LoadSceneMaterials w s0)) ''wall'' =
       [setVec3Value ''material.ambientColor'' (vec3 w 1 1 1),
        setFloatValue ''material.ambientStrength'' (flit w (5/10)),
        setVec3Value ''material.diffuseColor'' (vec3 w 1 1 1),
        setVec3Value ''material.specularColor'' (vec3 w (1/10) (1/10) (1/10)),
        setFloatValue ''material.shininess'' (flit w 1)]"
    "SetShaderMaterial_calls w (m_objectMaterials (LoadSceneMaterials w s0)) ''lamp'' =
       [setVec3Value ''material.ambientColor'' (vec3 w 1 1 1),
        setFloatValue ''material.ambientStrength'' (flit w (5/10)),
        setVec3Value ''material.diffuseColor'' (vec3 w 1 1 1),
        setVec3Value ''material.specularColor'' (vec3 w (2/10) (2/10) (2/10)),
        setFloatValue ''material.shininess'' (flit w 2)]"
  using assms
  by (simp_all add: SetShaderMaterial_calls_def material_calls_def LoadSceneMaterials_def
      FindMaterial_loop.simps Let_def)

text \<open>
  C4, as amended.  With a shader manager present and the texture count within the array,
  RenderScene returns and changes nothing but the trace.  It first makes the thirteen
  light uploads of SetupSceneLights, none of them a draw.  What follows is, call for
  call: for each of the ten fixed objects the upload of its model matrix, then its
  material, texture and colour calls, then its draw; then the texture flag and the
  "leaf" texture; then for each leaf \<open>i\<close> from 0 to 9 the upload of a matrix whose Y
  rotation is \<open>i * (360 / 10)\<close> and its draw.  So each draw is preceded by its
  transform and its material and texture state (for a leaf, the state set before the
  loop), and every fixed object has at least one state call of its own once the material
  table is not empty.  There are exactly 20 draws (not 21), in the order wall plane,
  desk plane, lamp base cylinder, lamp neck cylinder, lamp shade tapered cylinder, lamp
  bulb sphere, lamp joint cylinder, clock body cylinder, clock face cylinder, pot sphere,
  and ten leaf tapered cylinders.
\<close>

theorem RenderScene_draw_sequence:
  assumes "m_pShaderManager s" "m_loadedTextures s \<le> capacity"
  shows "\<exists>wall_slot wood_slot leaf_slot rest.
           FindTextureSlot s ''wall'' = Some wall_slot \<and>
           FindTextureSlot s ''wood'' = Some wood_slot \<and>
           FindTextureSlot s ''leaf'' = Some leaf_slot \<and>
           RenderScene w s = Some (emits (SetupSceneLights_calls w @ rest) s) \<and>
           rest =
             concat (scene_segments w (m_objectMaterials s) wall_slot wood_slot) @
             [setIntValue ''bUseTexture'' 1] @ texture_calls leaf_slot @
             concat (map (\<lambda>i. [setMat4Value ''model''
                                  (modelView w (leaf_scale w i) (leaf_xTilt w i)
                                     (fmul w (fint w i) (fdiv w (flit w 360) (fint w 10)))
                                     (leaf_zLean w i) (vec3 w 2 (13/10) 0)),
                                DrawMesh TaperedCylinder]) [0..9]) \<and>
           (\<forall>seg \<in> set (scene_segments w (m_objectMaterials s) wall_slot wood_slot).
              (\<exists>mv. hd seg = setMat4Value ''model'' mv) \<and>
              (\<exists>k. last seg = DrawMesh k \<and> draws seg = [k]) \<and>
              (m_objectMaterials s \<noteq> [] \<longrightarrow> 2 < length seg)) \<and>
           draws (SetupSceneLights_calls w) = [] \<and>
           draws rest = [Plane, Plane, Cylinder, Cylinder, TaperedCylinder, Sphere, Cylinder,
                         Cylinder, Cylinder, Sphere] @ replicate 10 TaperedCylinder \<and>
           length (draws rest) = 20 \<and>
           filter is_render_call rest =
             concat (map object_calls (scene_objects w)) @
             [setIntValue ''bUseTexture'' 1, setIntValue ''bUseTexture'' 1] @
             concat (map (\<lambda>i. [setMat4Value ''model''
                                  (modelView w (leaf_scale w i) (leaf_xTilt w i)
                                     (fmul w (fint w i) (fdiv w (flit w 360) (fint w 10)))
                                     (leaf_zLean w i) (vec3 w 2 (13/10) 0)),
                                DrawMesh TaperedCylinder]) [0..9])"
proof -
  from RenderScene_trace [OF assms, of w]
  obtain wall_slot wood_slot leaf_slot where slots:
    "FindTextureSlot s ''wall'' = Some wall_slot"
    "FindTextureSlot s ''wood'' = Some wood_slot"
    "FindTextureSlot s ''leaf'' = Some leaf_slot"
    and run: "RenderScene w s =
             Some (emits (SetupSceneLights_calls w @
                          concat (scene_segments w (m_objectMaterials s) wall_slot wood_slot) @
                          [setIntValue ''bUseTexture'' 1] @ texture_calls leaf_slot @
                          concat (map (leaf_calls w 10) [0..9])) s)"
    by blast
  define rest where "rest =
      concat (scene_segments w (m_objectMaterials s) wall_slot wood_slot) @
      [setIntValue ''bUseTexture'' 1] @ texture_calls leaf_slot @
      concat (map (leaf_calls w 10) [0..9])"
  have lc: "leaf_calls w 10 = (\<lambda>i. [setMat4Value ''model''
                                  (modelView w (leaf_scale w i) (leaf_xTilt w i)
                                     (fmul w (fint w i) (fdiv w (flit w 360) (fint w 10)))
                                     (leaf_zLean w i) (vec3 w 2 (13/10) 0)),
                                DrawMesh TaperedCylinder])"
    by (rule ext) (simp add: leaf_calls_def)
  have run': "RenderScene w s = Some (emits (SetupSceneLights_calls w @ rest) s)"
    unfolding rest_def by (rule run)
  have dr: "draws rest = [Plane, Plane, Cylinder, Cylinder, TaperedCylinder, Sphere, Cylinder,
                         Cylinder, Cylinder, Sphere] @ replicate 10 TaperedCylinder"
    unfolding rest_def by (rule scene_segments_draws)
  have len: "length (draws rest) = 20" unfolding dr by simp
  have fl: "filter is_render_call rest =
             concat (map object_calls (scene_objects w)) @
             [setIntValue ''bUseTexture'' 1, setIntValue ''bUseTexture'' 1] @
             concat (map (leaf_calls w 10) [0..9])"
    unfolding rest_def by (rule scene_segments_render_calls)
  note shape = scene_segments_shape [of w "m_objectMaterials s" wall_slot wood_slot]
  show ?thesis
    by (rule exI [of _ wall_slot], rule exI [of _ wood_slot], rule exI [of _ leaf_slot],
        rule exI [of _ rest])
       (intro conjI slots run' rest_def [unfolded lc] shape draws_SetupSceneLights_calls dr len
          fl [unfolded lc])
qed

lemma fresh_scene_fields:
  "m_pShaderManager fresh_scene" "m_loadedTextures fresh_scene = 0"
  "m_loadedTextures fresh_scene \<le> capacity" "trace fresh_scene = []"
  "m_objectMaterials fresh_scene = []" "gl_generated fresh_scene = 0"
  by (simp_all add: fresh_scene_def SceneManager_new_def capacity_def)

lemma null_shader_scene_fields:
  "\<not> m_pShaderManager null_shader_scene" "m_loadedTextures null_shader_scene = 0"
  "trace null_shader_scene = []"
  by (simp_all add: null_shader_scene_def SceneManager_new_def)

lemma furnished_scene_fields:
  "m_pShaderManager furnished_scene" "m_loadedTextures furnished_scene = 3"
  "m_loadedTextures furnished_scene \<le> capacity" "trace furnished_scene = []"
  "m_textureIDs furnished_scene = demo_slots"
  "map mtag (m_objectMaterials furnished_scene) = [''marble'', ''gold'', ''granite'', ''wall'', ''lamp'']"
  by (simp_all add: furnished_scene_def demo_registry_def fresh_scene_def SceneManager_new_def
      capacity_def)

lemma furnished_scene_slots:
  "FindTextureSlot furnished_scene ''wall'' = Some 1"
  "FindTextureSlot furnished_scene ''wood'' = Some 0"
  "FindTextureSlot furnished_scene ''leaf'' = Some (- 1)"
  by (simp_all add: FindTextureSlot_def FindTextureSlot_loop.simps furnished_scene_fields
      demo_slots_def in_bounds_def capacity_def)

theorem RenderScene_draw_sequence_witness:
  "m_pShaderManager furnished_scene \<and> m_loadedTextures furnished_scene \<le> capacity \<and>
   m_objectMaterials furnished_scene \<noteq> [] \<and>
   (\<exists>rest. RenderScene demo_world furnished_scene =
             Some (emits (SetupSceneLights_calls demo_world @ rest) furnished_scene) \<and>
      rest = concat (scene_segments demo_world (m_objectMaterials furnished_scene) 1 0) @
             [setIntValue ''bUseTexture'' 1] @ texture_calls (- 1) @
             concat (map (leaf_calls demo_world 10) [0..9]) \<and>
      (\<forall>seg \<in> set (scene_segments demo_world (m_objectMaterials furnished_scene) 1 0).
         2 < length seg) \<and>
      draws rest = [Plane, Plane, Cylinder, Cylinder, TaperedCylinder, Sphere, Cylinder,
                    Cylinder, Cylinder, Sphere] @ replicate 10 TaperedCylinder \<and>
      length (draws rest) = 20)"
proof -
  have ne: "m_objectMaterials furnished_scene \<noteq> []"
    using furnished_scene_fields(6) by auto
  have lc: "(\<lambda>i. [setMat4Value ''model''
                   (modelView demo_world (leaf_scale demo_world i) (leaf_xTilt demo_world i)
                      (fmul demo_world (fint demo_world i)
                         (fdiv demo_world (flit demo_world 360) (fint demo_world 10)))
                      (leaf_zLean demo_world i) (vec3 demo_world 2 (13/10) 0)),
                 DrawMesh TaperedCylinder]) = leaf_calls demo_world 10"
    by (rule ext) (simp add: leaf_calls_def)
  from RenderScene_draw_sequence [OF furnished_scene_fields(1,3), of demo_world]
  obtain wall_slot wood_slot leaf_slot rest where r:
    "FindTextureSlot furnished_scene ''wall'' = Some wall_slot"
    "FindTextureSlot furnished_scene ''wood'' = Some wood_slot"
    "FindTextureSlot furnished_scene ''leaf'' = Some leaf_slot"
    "RenderScene demo_world furnished_scene =
       Some (emits (SetupSceneLights_calls demo_world @ rest) furnished_scene)"
    "rest =
       concat (scene_segments demo_world (m_objectMaterials furnished_scene) wall_slot wood_slot) @
       [setIntValue ''bUseTexture'' 1] @ texture_calls leaf_slot @
       concat (map (leaf_calls demo_world 10) [0..9])"
    "\<forall>seg \<in> set (scene_segments demo_world (m_objectMaterials furnished_scene) wall_slot wood_slot).
       (\<exists>mv. hd seg = setMat4Value ''model'' mv) \<and>
       (\<exists>k. last seg = DrawMesh k \<and> draws seg = [k]) \<and>
       (m_objectMaterials furnished_scene \<noteq> [] \<longrightarrow> 2 < length seg)"
    "draws rest = [Plane, Plane, Cylinder, Cylinder, TaperedCylinder, Sphere, Cylinder,
                   Cylinder, Cylinder, Sphere] @ replicate 10 TaperedCylinder"
    "length (draws rest) = 20"
    unfolding lc by blast
  have sl: "wall_slot = 1" "wood_slot = 0" "leaf_slot = - 1"
    using r(1-3) furnished_scene_slots by simp_all
  have sh: "\<forall>seg \<in> set (scene_segments demo_world (m_objectMaterials furnished_scene) 1 0).
         2 < length seg"
    using r(6) ne unfolding sl by blast
  show ?thesis
    by (intro conjI furnished_scene_fields(1,3) ne, rule exI [of _ rest])
       (intro conjI r(4) r(5) [unfolded sl] sh r(7) r(8))
qed

text \<open>
  The draw count of the claim as first stated: on the fresh scene RenderScene returns and
  its trace holds 20 draws, not 21.
\<close>

theorem RenderScene_draw_count_counterexample:
  "RenderScene demo_world fresh_scene \<noteq> None \<and>
   length (draws (trace (the (RenderScene demo_world fresh_scene)))) = 20 \<and>
   length (draws (trace (the (RenderScene demo_world fresh_scene)))) \<noteq> 21"
proof -
  from RenderScene_draws [OF fresh_scene_fields(1,3), of demo_world]
  obtain rest where rest: "RenderScene demo_world fresh_scene =
             Some (emits (SetupSceneLights_calls demo_world @ rest) fresh_scene)"
    "draws rest = [Plane, Plane, Cylinder, Cylinder, TaperedCylinder, Sphere, Cylinder,
                         Cylinder, Cylinder, Sphere] @ replicate 10 TaperedCylinder"
    by blast
  have "length (draws (trace (the (RenderScene demo_world fresh_scene)))) = 20"
    unfolding rest(1) by (simp add: fresh_scene_fields rest(2))
  then show ?thesis using rest(1) by simp
qed

section \<open>The model matrix\<close>

text \<open>
  C2, as amended.  For every scale vector, rotation angles and position vector: when the
  shader manager is present, SetTransformations makes exactly one external call, the
  upload to the uniform "model" of the product
  \<open>translate(position) * rotateX * rotateY * rotateZ * scale\<close>, multiplied from the left
  as C++ does, each rotation about its coordinate axis by the angle converted with
  \<open>glm::radians\<close>; when the shader manager pointer is NULL it computes the matrix and
  uploads nothing.
\<close>

theorem SetTransformations_model_matrix:
  "(m_pShaderManager s \<longrightarrow>
      SetTransformations w scaleXYZ rx ry rz positionXYZ s =
        emit (setMat4Value ''model''
               (mat_mul w
                 (mat_mul w
                   (mat_mul w
                     (mat_mul w (glm_translate w positionXYZ)
                        (glm_rotate w (glm_radians w rx) (flit w 1, flit w 0, flit w 0)))
                     (glm_rotate w (glm_radians w ry) (flit w 0, flit w 1, flit w 0)))
                   (glm_rotate w (glm_radians w rz) (flit w 0, flit w 0, flit w 1)))
                 (glm_scale w scaleXYZ))) s) \<and>
   (\<not> m_pShaderManager s \<longrightarrow> SetTransformations w scaleXYZ rx ry rz positionXYZ s = s)"
  by (simp add: SetTransformations_def modelView_def vec3_def Let_def)

theorem SetTransformations_model_matrix_witness:
  "m_pShaderManager fresh_scene \<and> \<not> m_pShaderManager null_shader_scene \<and>
   trace (SetTransformations demo_world (Lit 2, Lit 3, Lit 4) (Lit 10) (Lit 20) (Lit 30)
            (Lit 5, Lit 6, Lit 7) fresh_scene) =
     [setMat4Value ''model''
        (MatMul
          (MatMul
            (MatMul
              (MatMul (Translate (Lit 5, Lit 6, Lit 7))
                 (Rotate (Radians (Lit 10)) (Lit 1, Lit 0, Lit 0)))
              (Rotate (Radians (Lit 20)) (Lit 0, Lit 1, Lit 0)))
            (Rotate (Radians (Lit 30)) (Lit 0, Lit 0, Lit 1)))
          (Scale (Lit 2, Lit 3, Lit 4)))] \<and>
   SetTransformations demo_world (Lit 2, Lit 3, Lit 4) (Lit 10) (Lit 20) (Lit 30)
     (Lit 5, Lit 6, Lit 7) null_shader_scene = null_shader_scene"
  using SetTransformations_model_matrix
          [of fresh_scene demo_world "(Lit 2, Lit 3, Lit 4)" "Lit 10" "Lit 20" "Lit 30"
              "(Lit 5, Lit 6, Lit 7)"]
        SetTransformations_model_matrix
          [of null_shader_scene demo_world "(Lit 2, Lit 3, Lit 4)" "Lit 10" "Lit 20" "Lit 30"
              "(Lit 5, Lit 6, Lit 7)"]
  by (simp add: fresh_scene_fields null_shader_scene_fields demo_world_def)

text \<open>
  The claim as first stated, at a scene manager built with a NULL shader manager: no
  call is made, so the matrix is not pushed.
\<close>

theorem SetTransformations_null_shader_counterexample:
  "trace (SetTransformations demo_world (Lit 2, Lit 3, Lit 4) (Lit 10) (Lit 20) (Lit 30)
            (Lit 5, Lit 6, Lit 7) null_shader_scene) = [] \<and>
   trace (SetTransformations demo_world (Lit 2, Lit 3, Lit 4) (Lit 10) (Lit 20) (Lit 30)
            (Lit 5, Lit 6, Lit 7) null_shader_scene) \<noteq>
     trace null_shader_scene @
     [setMat4Value ''model''
        (modelView demo_world (Lit 2, Lit 3, Lit 4) (Lit 10) (Lit 20) (Lit 30) (Lit 5, Lit 6, Lit 7))]"
  by (simp add: SetTransformations_def null_shader_scene_fields)

lemma uniform_int_append:
  "uniform_int n (xs @ ys) =
     (case uniform_int n ys of Some v \<Rightarrow> Some v | None \<Rightarrow> uniform_int n xs)"
  by (induction xs) (simp_all split: option.splits)

section \<open>The texture flag\<close>

text \<open>
  C10, as amended.  When the shader manager is present, SetShaderColor writes 0 to
  "bUseTexture" and then uploads the colour, so the flag a draw issued right after it
  sees is 0; and (the texture count being within the array) SetShaderTexture writes 1 to
  "bUseTexture" and then uploads as the sampler value the slot FindTextureSlot returns,
  which is -1 for a tag no registered slot carries, so the flag a draw issued right
  after it sees is 1.  When the shader manager pointer is NULL both do nothing.
\<close>

theorem texture_flag_after_color_and_texture:
  "(m_pShaderManager s \<longrightarrow>
      trace (SetShaderColor r g b a s) =
        trace s @ [setIntValue ''bUseTexture'' 0, setVec4Value ''objectColor'' (r, g, b, a)] \<and>
      uniform_int ''bUseTexture'' (trace (emit (DrawMesh k) (SetShaderColor r g b a s))) = Some 0) \<and>
   (m_pShaderManager s \<and> m_loadedTextures s \<le> capacity \<longrightarrow>
      (\<exists>slot s'. FindTextureSlot s tg = Some slot \<and> SetShaderTexture tg s = Some s' \<and>
         trace s' = trace s @ [setIntValue ''bUseTexture'' 1,
                               setSampler2DValue ''objectTexture'' slot] \<and>
         ((\<forall>i. 0 \<le> i \<and> i < m_loadedTextures s \<longrightarrow> tag (m_textureIDs s (nat i)) \<noteq> tg) \<longrightarrow>
            slot = - 1) \<and>
         uniform_int ''bUseTexture'' (trace (emit (DrawMesh k) s')) = Some 1)) \<and>
   (\<not> m_pShaderManager s \<longrightarrow>
      SetShaderColor r g b a s = s \<and> SetShaderTexture tg s = Some s)"
proof (intro conjI impI)
  assume sh: "m_pShaderManager s"
  show "trace (SetShaderColor r g b a s) =
        trace s @ [setIntValue ''bUseTexture'' 0, setVec4Value ''objectColor'' (r, g, b, a)]"
    using sh by (simp add: SetShaderColor_shader)
  show "uniform_int ''bUseTexture'' (trace (emit (DrawMesh k) (SetShaderColor r g b a s))) = Some 0"
    using sh by (simp add: SetShaderColor_shader uniform_int_append)
next
  assume "m_pShaderManager s \<and> m_loadedTextures s \<le> capacity"
  then have sh: "m_pShaderManager s" and cap: "m_loadedTextures s \<le> capacity" by simp_all
  from FindTextureSlot_total [OF cap] obtain slot where slot: "FindTextureSlot s tg = Some slot"
    by blast
  let ?s' = "emits [setIntValue ''bUseTexture'' 1, setSampler2DValue ''objectTexture'' slot] s"
  have run: "SetShaderTexture tg s = Some ?s'"
    using SetShaderTexture_shader [OF sh cap, of tg] slot by simp
  have tr: "trace ?s' = trace s @ [setIntValue ''bUseTexture'' 1,
                               setSampler2DValue ''objectTexture'' slot]"
    by simp
  have absent: "(\<forall>i. 0 \<le> i \<and> i < m_loadedTextures s \<longrightarrow> tag (m_textureIDs s (nat i)) \<noteq> tg) \<longrightarrow>
            slot = - 1"
  proof
    assume "\<forall>i. 0 \<le> i \<and> i < m_loadedTextures s \<longrightarrow> tag (m_textureIDs s (nat i)) \<noteq> tg"
    then have "FindTextureSlot s tg = Some (- 1)"
      unfolding FindTextureSlot_def using cap
      by (intro FindTextureSlot_loop_absent) simp_all
    with slot show "slot = - 1" by simp
  qed
  have flag: "uniform_int ''bUseTexture'' (trace (emit (DrawMesh k) ?s')) = Some 1"
    by (simp add: uniform_int_append)
  show "\<exists>slot s'. FindTextureSlot s tg = Some slot \<and> SetShaderTexture tg s = Some s' \<and>
         trace s' = trace s @ [setIntValue ''bUseTexture'' 1,
                               setSampler2DValue ''objectTexture'' slot] \<and>
         ((\<forall>i. 0 \<le> i \<and> i < m_loadedTextures s \<longrightarrow> tag (m_textureIDs s (nat i)) \<noteq> tg) \<longrightarrow>
            slot = - 1) \<and>
         uniform_int ''bUseTexture'' (trace (emit (DrawMesh k) s')) = Some 1"
    by (rule exI [of _ slot], rule exI [of _ ?s']) (intro conjI slot run tr absent flag)
next
  assume "\<not> m_pShaderManager s"
  then show "SetShaderColor r g b a s = s" by (simp add: SetShaderColor_def)
next
  assume "\<not> m_pShaderManager s"
  then show "SetShaderTexture tg s = Some s" by (simp add: SetShaderTexture_def)
qed


lemma demo_registry_fields:
  "m_pShaderManager demo_registry" "m_loadedTextures demo_registry = 3"
  "m_loadedTextures demo_registry \<le> capacity" "trace demo_registry = []"
  "m_textureIDs demo_registry = demo_slots"
  by (simp_all add: demo_registry_def fresh_scene_def SceneManager_new_def capacity_def)

theorem texture_flag_after_color_and_texture_witness:
  "m_pShaderManager demo_registry \<and> m_loadedTextures demo_registry \<le> capacity \<and>
   \<not> m_pShaderManager null_shader_scene \<and>
   trace (SetShaderColor (Lit 1) (Lit 0) (Lit 0) (Lit 1) demo_registry) =
     [setIntValue ''bUseTexture'' 0, setVec4Value ''objectColor'' (Lit 1, Lit 0, Lit 0, Lit 1)] \<and>
   uniform_int ''bUseTexture''
     (trace (emit (DrawMesh Plane) (SetShaderColor (Lit 1) (Lit 0) (Lit 0) (Lit 1) demo_registry)))
     = Some 0 \<and>
   (\<exists>slot s'. FindTextureSlot demo_registry ''gold'' = Some slot \<and>
       SetShaderTexture ''gold'' demo_registry = Some s' \<and>
       trace s' = [setIntValue ''bUseTexture'' 1, setSampler2DValue ''objectTexture'' slot] \<and>
       slot = - 1 \<and>
       uniform_int ''bUseTexture'' (trace (emit (DrawMesh Plane) s')) = Some 1) \<and>
   SetShaderColor (Lit 1) (Lit 0) (Lit 0) (Lit 1) null_shader_scene = null_shader_scene \<and>
   SetShaderTexture ''gold'' null_shader_scene = Some null_shader_scene"
proof -
  have absent: "\<forall>i. 0 \<le> i \<and> i < m_loadedTextures demo_registry \<longrightarrow>
      tag (m_textureIDs demo_registry (nat i)) \<noteq> ''gold''"
    by (simp add: demo_registry_fields demo_slots_def)
  note a = texture_flag_after_color_and_texture
      [of demo_registry "Lit 1" "Lit 0" "Lit 0" "Lit 1" Plane "''gold''"]
  note b = texture_flag_after_color_and_texture
      [of null_shader_scene "Lit 1" "Lit 0" "Lit 0" "Lit 1" Plane "''gold''"]
  have c1: "trace (SetShaderColor (Lit 1) (Lit 0) (Lit 0) (Lit 1) demo_registry) =
     [setIntValue ''bUseTexture'' 0, setVec4Value ''objectColor'' (Lit 1, Lit 0, Lit 0, Lit 1)]"
    and c2: "uniform_int ''bUseTexture''
     (trace (emit (DrawMesh Plane) (SetShaderColor (Lit 1) (Lit 0) (Lit 0) (Lit 1) demo_registry)))
     = Some 0"
    using a demo_registry_fields(1,4) by simp_all
  from a demo_registry_fields(1,3)
  obtain slot s' where s': "FindTextureSlot demo_registry ''gold'' = Some slot"
    "SetShaderTexture ''gold'' demo_registry = Some s'"
    "trace s' = trace demo_registry @ [setIntValue ''bUseTexture'' 1,
                               setSampler2DValue ''objectTexture'' slot]"
    "(\<forall>i. 0 \<le> i \<and> i < m_loadedTextures demo_registry \<longrightarrow>
         tag (m_textureIDs demo_registry (nat i)) \<noteq> ''gold'') \<longrightarrow> slot = - 1"
    "uniform_int ''bUseTexture'' (trace (emit (DrawMesh Plane) s')) = Some 1"
    by blast
  have c3: "\<exists>slot s'. FindTextureSlot demo_registry ''gold'' = Some slot \<and>
       SetShaderTexture ''gold'' demo_registry = Some s' \<and>
       trace s' = [setIntValue ''bUseTexture'' 1, setSampler2DValue ''objectTexture'' slot] \<and>
       slot = - 1 \<and>
       uniform_int ''bUseTexture'' (trace (emit (DrawMesh Plane) s')) = Some 1"
    using s' absent demo_registry_fields(4)
    by (intro exI [of _ slot] exI [of _ s']) simp
  have c4: "SetShaderColor (Lit 1) (Lit 0) (Lit 0) (Lit 1) null_shader_scene = null_shader_scene"
    and c5: "SetShaderTexture ''gold'' null_shader_scene = Some null_shader_scene"
    using b null_shader_scene_fields(1) by simp_all
  show ?thesis
    by (intro conjI demo_registry_fields(1,3) null_shader_scene_fields(1) c1 c2 c3 c4 c5)
qed

text \<open>
  The claim as first stated, at a scene manager built with a NULL shader manager:
  neither function writes the flag, and the draw that follows sees no value for it.
\<close>

theorem SetShaderColor_null_shader_counterexample:
  "trace (SetShaderColor (Lit 1) (Lit 0) (Lit 0) (Lit 1) null_shader_scene) = [] \<and>
   uniform_int ''bUseTexture''
     (trace (emit (DrawMesh Plane) (SetShaderColor (Lit 1) (Lit 0) (Lit 0) (Lit 1) null_shader_scene)))
     \<noteq> Some 0 \<and>
   trace (the (SetShaderTexture ''wood'' null_shader_scene)) = [] \<and>
   uniform_int ''bUseTexture''
     (trace (emit (DrawMesh Plane) (the (SetShaderTexture ''wood'' null_shader_scene))))
     \<noteq> Some 1"
  by (simp add: SetShaderColor_def SetShaderTexture_def null_shader_scene_fields)

lemma RenderScene_registry:
  assumes "m_loadedTextures s \<le> capacity" "RenderScene w s = Some s'"
  shows "registered_tags s' = registered_tags s"
proof (cases "m_pShaderManager s")
  case True
  from RenderScene_shader [OF True assms(1), of w] assms(2) show ?thesis by auto
next
  case False
  from RenderScene_null [OF False, of w] assms(2) show ?thesis by simp
qed

section \<open>Unique tags\<close>

text \<open>
  C8.  Starting from a scene manager with no textures, the tags of the registered
  entries are pairwise different after any number of LoadSceneTextures' eight calls,
  after LoadSceneTextures, after PrepareScene, and after any RenderScene that follows;
  they are among the eight tags of the scene.
\<close>

theorem scene_texture_tags_unique:
  assumes "m_loadedTextures s = 0"
  shows "(\<forall>k \<le> length scene_texture_files.
            \<exists>s'. load_texture_list w (take k scene_texture_files) s = Some s' \<and>
                 distinct (registered_tags s')) \<and>
         (\<exists>s1 s2. LoadSceneTextures w s = Some s1 \<and> distinct (registered_tags s1) \<and>
            set (registered_tags s1) \<subseteq> set (map snd scene_texture_files) \<and>
            PrepareScene w s = Some s2 \<and> distinct (registered_tags s2) \<and>
            (\<forall>s3. RenderScene w s2 = Some s3 \<longrightarrow> distinct (registered_tags s3)))"
proof (intro conjI allI impI)
  fix k assume "k \<le> length scene_texture_files"
  from load_prefix_count [OF assms this, of w]
  show "\<exists>s'. load_texture_list w (take k scene_texture_files) s = Some s' \<and>
                 distinct (registered_tags s')"
    by blast
next
  have p1: "0 \<le> m_loadedTextures s" and p2: "m_loadedTextures s + 8 \<le> capacity"
    using assms by (simp_all add: capacity_def)
  from LoadSceneTextures_effect [OF p1 p2, of w]
  obtain s1 bs where s1: "LoadSceneTextures w s = Some s1" "length bs = 8"
    "m_loadedTextures s1 \<le> m_loadedTextures s + 8"
    "registered_tags s1 =
        registered_tags s @ map snd (filter fst (zip bs (map snd scene_texture_files)))"
    by blast
  have len: "length bs = length scene_texture_files"
    using s1(2) by (simp add: scene_texture_files_def)
  have tags: "registered_tags s1 = map snd (filter fst (zip bs (map snd scene_texture_files)))"
    using s1(4) registered_tags_empty [OF assms] by simp
  have d1: "distinct (registered_tags s1)"
    unfolding tags by (rule distinct_selected_tags [OF len scene_texture_tags_distinct])
  have sub: "set (registered_tags s1) \<subseteq> set (map snd scene_texture_files)"
    unfolding tags using len by (auto dest!: set_zip_rightD)
  let ?s2 = "emits [LoadMesh Plane, LoadMesh Box, LoadMesh Cone, LoadMesh Prism, LoadMesh Pyramid3,
                  LoadMesh Sphere, LoadMesh Torus, LoadMesh TaperedCylinder, LoadMesh Cylinder]
             (LoadSceneMaterials w s1)"
  note prep = PrepareScene_after_textures [OF s1(1)]
  have t2: "registered_tags ?s2 = registered_tags s1" by simp
  have d2: "distinct (registered_tags ?s2)" using d1 t2 by simp
  have cap: "m_loadedTextures ?s2 \<le> capacity"
    using s1(3) assms by (simp add: capacity_def)
  have d3: "\<forall>s3. RenderScene w ?s2 = Some s3 \<longrightarrow> distinct (registered_tags s3)"
    using RenderScene_registry [OF cap] d2 by metis
  show "\<exists>s1 s2. LoadSceneTextures w s = Some s1 \<and> distinct (registered_tags s1) \<and>
            set (registered_tags s1) \<subseteq> set (map snd scene_texture_files) \<and>
            PrepareScene w s = Some s2 \<and> distinct (registered_tags s2) \<and>
            (\<forall>s3. RenderScene w s2 = Some s3 \<longrightarrow> distinct (registered_tags s3))"
    by (rule exI [of _ s1], rule exI [of _ ?s2]) (intro conjI s1(1) d1 sub prep d2 d3)
qed

theorem scene_texture_tags_unique_witness:
  "m_loadedTextures fresh_scene = 0 \<and>
   (\<exists>s'. load_texture_list demo_world (take 2 scene_texture_files) fresh_scene = Some s' \<and>
         distinct (registered_tags s')) \<and>
   (\<exists>s1 s2. LoadSceneTextures demo_world fresh_scene = Some s1 \<and> distinct (registered_tags s1) \<and>
       PrepareScene demo_world fresh_scene = Some s2 \<and> distinct (registered_tags s2) \<and>
       (\<forall>s3. RenderScene demo_world s2 = Some s3 \<longrightarrow> distinct (registered_tags s3)))"
proof -
  have two: "(2::nat) \<le> length scene_texture_files"
    by (simp add: scene_texture_files_def)
  note t = scene_texture_tags_unique [OF fresh_scene_fields(2), of demo_world]
  have a: "\<exists>s'. load_texture_list demo_world (take 2 scene_texture_files) fresh_scene = Some s' \<and>
         distinct (registered_tags s')"
    using t two by blast
  have b: "\<exists>s1 s2. LoadSceneTextures demo_world fresh_scene = Some s1 \<and> distinct (registered_tags s1) \<and>
       PrepareScene demo_world fresh_scene = Some s2 \<and> distinct (registered_tags s2) \<and>
       (\<forall>s3. RenderScene demo_world s2 = Some s3 \<longrightarrow> distinct (registered_tags s3))"
    using t by blast
  show ?thesis by (intro conjI fresh_scene_fields(2) a b)
qed

end
